theory Spec2Isabelle
  imports Complex_Main
begin

section \<open>Arrays and the numpy operations used by network.py\<close>

text \<open>
  The program works on numpy arrays of float64. Numbers are modelled as reals: rounding,
  overflow to inf and nan are outside the model of the layers and of the network, and
  nothing below is said of the values of a softmax computed over the reals. The
  overflow of the exponentials in the output layer has a model of its own further down.
  A two-dimensional array carries its shape explicitly, as numpy does, so that arrays
  with zero rows or zero columns keep both dimensions. One-dimensional arrays are lists.
\<close>

datatype error = ValueError | IndexError | ZeroDivisionError | AttributeError | TypeError

record 'a matrix =
  nrows :: nat
  ncols :: nat
  rows :: "'a list list"

definition wf_matrix :: "'a matrix \<Rightarrow> bool" where
  "wf_matrix A =
     (length (rows A) = nrows A \<and> list_all (\<lambda>r. length r = ncols A) (rows A))"

definition entry :: "'a matrix \<Rightarrow> nat \<Rightarrow> nat \<Rightarrow> 'a" where
  "entry A i j = rows A ! i ! j"

definition column :: "'a matrix \<Rightarrow> nat \<Rightarrow> 'a list" where
  "column A j = map (\<lambda>r. r ! j) (rows A)"

definition map_matrix :: "('a \<Rightarrow> 'b) \<Rightarrow> 'a matrix \<Rightarrow> 'b matrix" where
  "map_matrix f A = \<lparr>nrows = nrows A, ncols = ncols A, rows = map (map f) (rows A)\<rparr>"

text \<open>
  Broadcasting of two dimensions: equal sizes stay, a size of 1 is stretched to the
  other size, anything else is numpy's ValueError (operands could not be broadcast).
\<close>

definition bdim :: "nat \<Rightarrow> nat \<Rightarrow> nat option" where
  "bdim m n = (if m = n then Some m else if m = 1 then Some n
               else if n = 1 then Some m else None)"

definition stretch :: "nat \<Rightarrow> 'a list \<Rightarrow> 'a list" where
  "stretch n xs = (if length xs = n then xs else replicate n (hd xs))"

definition broadcast_to :: "nat \<Rightarrow> nat \<Rightarrow> 'a matrix \<Rightarrow> 'a matrix" where
  "broadcast_to r c A =
     \<lparr>nrows = r, ncols = c, rows = stretch r (map (stretch c) (rows A))\<rparr>"

definition np_binop ::
  "('a \<Rightarrow> 'b \<Rightarrow> 'c) \<Rightarrow> 'a matrix \<Rightarrow> 'b matrix \<Rightarrow> error + 'c matrix" where
  "np_binop f A B =
     (case bdim (nrows A) (nrows B) of
        None \<Rightarrow> Inl ValueError
      | Some r \<Rightarrow>
          (case bdim (ncols A) (ncols B) of
             None \<Rightarrow> Inl ValueError
           | Some c \<Rightarrow>
               Inr \<lparr>nrows = r, ncols = c,
                    rows = map2 (map2 f) (rows (broadcast_to r c A))
                                         (rows (broadcast_to r c B))\<rparr>))"

definition np_binop_vec ::
  "('a \<Rightarrow> 'b \<Rightarrow> 'c) \<Rightarrow> 'a list \<Rightarrow> 'b list \<Rightarrow> error + 'c list" where
  "np_binop_vec f u v =
     (case bdim (length u) (length v) of
        None \<Rightarrow> Inl ValueError
      | Some n \<Rightarrow> Inr (map2 f (stretch n u) (stretch n v)))"

text \<open>A one-dimensional array of shape (n,) broadcasts against a matrix as one row.\<close>

definition row_matrix :: "'a list \<Rightarrow> 'a matrix" where
  "row_matrix v = \<lparr>nrows = 1, ncols = length v, rows = [v]\<rparr>"

text \<open>\<^verbatim>\<open>np.maximum(0, input)\<close> and \<^verbatim>\<open>input > 0\<close>, both elementwise.\<close>

definition np_maximum0 :: "real matrix \<Rightarrow> real matrix" where
  "np_maximum0 A = map_matrix (\<lambda>x. max 0 x) A"

definition np_gt0 :: "real matrix \<Rightarrow> bool matrix" where
  "np_gt0 A = map_matrix (\<lambda>x. x > 0) A"

text \<open>
  \<^verbatim>\<open>np.exp(input)\<close>, elementwise, over the reals: it never overflows, where float64
  gives inf above 709.78. It serves the shapes and the state of a forward pass only.
\<close>

definition np_exp :: "real matrix \<Rightarrow> real matrix" where
  "np_exp A = map_matrix exp A"

text \<open>
  \<^verbatim>\<open>np.sum(a, axis=0)\<close> (one sum per column, a one-dimensional result) and
  \<^verbatim>\<open>np.sum(a, axis=1, keepdims=True)\<close> (one sum per row, a column of shape (rows, 1)).
\<close>

definition np_sum_axis0 :: "real matrix \<Rightarrow> real list" where
  "np_sum_axis0 A = map (\<lambda>j. sum_list (column A j)) [0..<ncols A]"

definition np_sum_axis1_keepdims :: "real matrix \<Rightarrow> real matrix" where
  "np_sum_axis1_keepdims A =
     \<lparr>nrows = nrows A, ncols = 1, rows = map (\<lambda>r. [sum_list r]) (rows A)\<rparr>"

text \<open>\<^verbatim>\<open>a.T\<close> and \<^verbatim>\<open>a @ m\<close>; the product raises ValueError when the inner sizes differ.\<close>

definition np_T :: "'a matrix \<Rightarrow> 'a matrix" where
  "np_T A = \<lparr>nrows = ncols A, ncols = nrows A, rows = map (column A) [0..<ncols A]\<rparr>"

definition dot :: "real list \<Rightarrow> real list \<Rightarrow> real" where
  "dot u v = sum_list (map2 (*) u v)"

definition matmul_rows :: "real matrix \<Rightarrow> real matrix \<Rightarrow> real list list" where
  "matmul_rows A M = map (\<lambda>r. map (\<lambda>j. dot r (column M j)) [0..<ncols M]) (rows A)"

definition matmul :: "real matrix \<Rightarrow> real matrix \<Rightarrow> error + real matrix" where
  "matmul A M =
     (if ncols A \<noteq> nrows M then Inl ValueError
      else Inr \<lparr>nrows = nrows A, ncols = ncols M, rows = matmul_rows A M\<rparr>)"

text \<open>
  \<^verbatim>\<open>np.eye(n)\<close>: the identity matrix; a negative size is a ValueError (negative
  dimensions are not allowed).
\<close>

definition np_eye :: "int \<Rightarrow> error + real matrix" where
  "np_eye n =
     (if n < 0 then Inl ValueError
      else Inr \<lparr>nrows = nat n, ncols = nat n,
                rows = map (\<lambda>i. map (\<lambda>j. if i = j then 1 else 0) [0..<nat n]) [0..<nat n]\<rparr>)"

text \<open>
  Indexing the first axis with one integer: a negative index counts from the end, an
  index out of range is an IndexError. Indexing with an integer array does so for every
  element of the array.
\<close>

definition np_index :: "'a list \<Rightarrow> int \<Rightarrow> error + 'a" where
  "np_index xs t =
     (let n = int (length xs); j = (if t < 0 then t + n else t)
      in if 0 \<le> j \<and> j < n then Inr (xs ! nat j) else Inl IndexError)"

fun mapM :: "('a \<Rightarrow> error + 'b) \<Rightarrow> 'a list \<Rightarrow> error + 'b list" where
  "mapM f [] = Inr []"
| "mapM f (x # xs) =
     (case f x of
        Inl e \<Rightarrow> Inl e
      | Inr y \<Rightarrow> (case mapM f xs of Inl e \<Rightarrow> Inl e | Inr ys \<Rightarrow> Inr (y # ys)))"

definition take_rows :: "'a matrix \<Rightarrow> int list \<Rightarrow> error + 'a matrix" where
  "take_rows A idx =
     (case mapM (np_index (rows A)) idx of
        Inl e \<Rightarrow> Inl e
      | Inr rs \<Rightarrow> Inr \<lparr>nrows = length idx, ncols = ncols A, rows = rs\<rparr>)"

definition take_items :: "'a list \<Rightarrow> int list \<Rightarrow> error + 'a list" where
  "take_items xs idx = mapM (np_index xs) idx"

text \<open>
  A slice \<^verbatim>\<open>xs[a:b]\<close>: a negative bound counts from the end, and both bounds are
  clipped to the length; a slice never raises.
\<close>

definition py_slice :: "'a list \<Rightarrow> int \<Rightarrow> int \<Rightarrow> 'a list" where
  "py_slice xs a b =
     (let n = int (length xs);
          lo = (if a < 0 then max 0 (a + n) else min a n);
          hi = (if b < 0 then max 0 (b + n) else min b n)
      in take (nat (hi - lo)) (drop (nat lo) xs))"

section \<open>The random source\<close>

text \<open>
  numpy's process-wide random state is an explicit value: the stream of the normal
  samples still to come (already of mean 0 and standard deviation 0.01), the answers
  that the calls of \<^verbatim>\<open>np.random.permutation\<close> still to come will give, and how
  many of each have been consumed. What numpy promises of a permutation (that the
  answer to \<^verbatim>\<open>permutation(N)\<close> is a rearrangement of 0..N-1) is a hypothesis
  of the theorems that need it; its distribution is outside this model.
\<close>

record rng =
  normal_stream :: "nat \<Rightarrow> real"
  normal_pos :: nat
  perm_stream :: "nat \<Rightarrow> nat \<Rightarrow> nat list"
  perm_pos :: nat

definition np_random_normal_matrix :: "rng \<Rightarrow> int \<Rightarrow> int \<Rightarrow> error + (real matrix \<times> rng)" where
  "np_random_normal_matrix g r c =
     (if r < 0 \<or> c < 0 then Inl ValueError
      else Inr (\<lparr>nrows = nat r, ncols = nat c,
                 rows = map (\<lambda>i. map (\<lambda>j. normal_stream g (normal_pos g + i * nat c + j))
                                     [0..<nat c]) [0..<nat r]\<rparr>,
                g\<lparr>normal_pos := normal_pos g + nat r * nat c\<rparr>))"

definition np_random_normal_vector :: "rng \<Rightarrow> int \<Rightarrow> error + (real list \<times> rng)" where
  "np_random_normal_vector g n =
     (if n < 0 then Inl ValueError
      else Inr (map (\<lambda>j. normal_stream g (normal_pos g + j)) [0..<nat n],
                g\<lparr>normal_pos := normal_pos g + nat n\<rparr>))"

definition np_random_permutation :: "rng \<Rightarrow> nat \<Rightarrow> nat list \<times> rng" where
  "np_random_permutation g N = (perm_stream g (perm_pos g) N, g\<lparr>perm_pos := perm_pos g + 1\<rparr>)"

section \<open>ReLULayer\<close>

text \<open>
  The attribute \<^verbatim>\<open>self.input\<close> does not exist before the first call of forward;
  reading it then raises AttributeError. It is an option here.
\<close>

record ReLULayer =
  relu_input :: "real matrix option"

definition ReLULayer_forward :: "ReLULayer \<Rightarrow> real matrix \<Rightarrow> ReLULayer \<times> real matrix" where
  "ReLULayer_forward self inp = (self\<lparr>relu_input := Some inp\<rparr>, np_maximum0 inp)"

text \<open>A float array times a bool array: True counts as 1 and False as 0.\<close>

definition ReLULayer_backward :: "ReLULayer \<Rightarrow> real matrix \<Rightarrow> error + real matrix" where
  "ReLULayer_backward self upstream_gradient =
     (case relu_input self of
        None \<Rightarrow> Inl AttributeError
      | Some inp \<Rightarrow> np_binop (\<lambda>u m. u * of_bool m) upstream_gradient (np_gt0 inp))"

definition ReLULayer_update :: "ReLULayer \<Rightarrow> real \<Rightarrow> ReLULayer" where
  "ReLULayer_update self learning_rate = self"

section \<open>OutputLayer\<close>

record OutputLayer =
  n_classes :: int
  out_input :: "real matrix option"

definition OutputLayer_init :: "int \<Rightarrow> OutputLayer" where
  "OutputLayer_init n = \<lparr>n_classes = n, out_input = None\<rparr>"

definition OutputLayer_forward ::
  "OutputLayer \<Rightarrow> real matrix \<Rightarrow> error + (OutputLayer \<times> real matrix)" where
  "OutputLayer_forward self inp =
     (case np_binop (/) (np_exp inp) (np_sum_axis1_keepdims (np_exp inp)) of
        Inl e \<Rightarrow> Inl e
      | Inr softmax \<Rightarrow> Inr (self\<lparr>out_input := Some inp\<rparr>, softmax))"

text \<open>
  \<^verbatim>\<open>get_one_hot\<close>: the rows of \<^verbatim>\<open>np.eye(nb_classes)\<close> selected by the labels. The
  labels are a one-dimensional integer array, for which the two reshapes change nothing.
\<close>

definition get_one_hot :: "int list \<Rightarrow> int \<Rightarrow> error + real matrix" where
  "get_one_hot targets nb_classes =
     (case np_eye nb_classes of
        Inl e \<Rightarrow> Inl e
      | Inr res \<Rightarrow> take_rows res targets)"

definition OutputLayer_backward ::
  "OutputLayer \<Rightarrow> real matrix \<Rightarrow> int list \<Rightarrow> error + real matrix" where
  "OutputLayer_backward self predicted_posteriors true_labels =
     (case get_one_hot true_labels (n_classes self) of
        Inl e \<Rightarrow> Inl e
      | Inr one_hot_labels \<Rightarrow> np_binop (-) predicted_posteriors one_hot_labels)"

definition OutputLayer_update :: "OutputLayer \<Rightarrow> real \<Rightarrow> OutputLayer" where
  "OutputLayer_update self learning_rate = self"

section \<open>OutputLayer.forward in float64\<close>

text \<open>
  The exponentials of \<open>forward\<close> leave the finite numbers in float64, which the reals
  above cannot show. The values below are those that the exponentials of a finite
  input, their sums and their quotients can take: a finite number that is not negative,
  plus infinity, and nan. Only overflow is modelled: a finite result is kept as the
  exact real (rounding and underflow are not modelled). \<open>f64_max\<close> is the largest
  finite float64, and 709.782712893384 is the largest float64 whose exponential is
  finite.
\<close>

datatype f64 = Fin real | PInf | NaN

definition f64_max :: real where
  "f64_max = 17976931348623157 * 10 ^ 292"

definition f64_exp :: "real \<Rightarrow> f64" where
  "f64_exp x = (if x > 709.782712893384 then PInf else Fin (exp x))"

fun f64_add :: "f64 \<Rightarrow> f64 \<Rightarrow> f64" where
  "f64_add NaN y = NaN"
| "f64_add x NaN = NaN"
| "f64_add PInf y = PInf"
| "f64_add x PInf = PInf"
| "f64_add (Fin a) (Fin b) = (if a + b > f64_max then PInf else Fin (a + b))"

fun f64_div :: "f64 \<Rightarrow> f64 \<Rightarrow> f64" where
  "f64_div NaN y = NaN"
| "f64_div x NaN = NaN"
| "f64_div PInf PInf = NaN"
| "f64_div PInf (Fin b) = PInf"
| "f64_div (Fin a) PInf = Fin 0"
| "f64_div (Fin a) (Fin b) =
     (if b = 0 then (if a = 0 then NaN else PInf)
      else if a / b > f64_max then PInf else Fin (a / b))"

definition np_exp_f64 :: "real matrix \<Rightarrow> f64 matrix" where
  "np_exp_f64 A = map_matrix f64_exp A"

definition np_sum_axis1_keepdims_f64 :: "f64 matrix \<Rightarrow> f64 matrix" where
  "np_sum_axis1_keepdims_f64 A =
     \<lparr>nrows = nrows A, ncols = 1, rows = map (\<lambda>r. [foldl f64_add (Fin 0) r]) (rows A)\<rparr>"

definition OutputLayer_forward_f64 ::
  "OutputLayer \<Rightarrow> real matrix \<Rightarrow> error + (OutputLayer \<times> f64 matrix)" where
  "OutputLayer_forward_f64 self inp =
     (case np_binop f64_div (np_exp_f64 inp) (np_sum_axis1_keepdims_f64 (np_exp_f64 inp)) of
        Inl e \<Rightarrow> Inl e
      | Inr softmax \<Rightarrow> Inr (self\<lparr>out_input := Some inp\<rparr>, softmax))"

section \<open>LinearLayer\<close>

text \<open>
  \<^verbatim>\<open>self.B\<close> and \<^verbatim>\<open>self.b\<close> are the fields \<open>weight_B\<close> and \<open>bias_b\<close>. The
  attributes \<^verbatim>\<open>input\<close>, \<^verbatim>\<open>grad_B\<close> and \<^verbatim>\<open>grad_b\<close> exist only once forward
  or backward has assigned them.
\<close>

record LinearLayer =
  n_inputs :: int
  n_outputs :: int
  weight_B :: "real matrix"
  bias_b :: "real list"
  lin_input :: "real matrix option"
  grad_B :: "real matrix option"
  grad_b :: "real list option"

definition LinearLayer_init :: "rng \<Rightarrow> int \<Rightarrow> int \<Rightarrow> error + (LinearLayer \<times> rng)" where
  "LinearLayer_init g n_in n_out =
     (case np_random_normal_matrix g n_in n_out of
        Inl e \<Rightarrow> Inl e
      | Inr (B0, g1) \<Rightarrow>
          (case np_random_normal_vector g1 n_out of
             Inl e \<Rightarrow> Inl e
           | Inr (b0, g2) \<Rightarrow>
               Inr (\<lparr>n_inputs = n_in, n_outputs = n_out, weight_B = B0, bias_b = b0,
                     lin_input = None, grad_B = None, grad_b = None\<rparr>, g2)))"

definition LinearLayer_forward ::
  "LinearLayer \<Rightarrow> real matrix \<Rightarrow> error + (LinearLayer \<times> real matrix)" where
  "LinearLayer_forward self inp =
     (case matmul inp (weight_B self) of
        Inl e \<Rightarrow> Inl e
      | Inr xB \<Rightarrow>
          (case np_binop (+) xB (row_matrix (bias_b self)) of
             Inl e \<Rightarrow> Inl e
           | Inr preactivations \<Rightarrow> Inr (self\<lparr>lin_input := Some inp\<rparr>, preactivations)))"

text \<open>
  For an upstream gradient with no rows numpy divides 0.0 by 0 and stores nan with a
  warning; the reals have no nan and HOL's \<open>x / 0\<close> is 0, so what this model says of
  \<open>grad_b\<close> is meant for a batch that is not empty only.
\<close>

definition LinearLayer_backward ::
  "LinearLayer \<Rightarrow> real matrix \<Rightarrow> error + (LinearLayer \<times> real matrix)" where
  "LinearLayer_backward self upstream_gradient =
     (let gb = map (\<lambda>s. s / real (nrows upstream_gradient)) (np_sum_axis0 upstream_gradient)
      in case lin_input self of
           None \<Rightarrow> Inl AttributeError
         | Some inp \<Rightarrow>
             (case matmul (np_T inp) upstream_gradient of
                Inl e \<Rightarrow> Inl e
              | Inr gB \<Rightarrow>
                  (case matmul upstream_gradient (np_T (weight_B self)) of
                     Inl e \<Rightarrow> Inl e
                   | Inr downstream_gradient \<Rightarrow>
                       Inr (self\<lparr>grad_b := Some gb, grad_B := Some gB\<rparr>,
                            downstream_gradient))))"

definition LinearLayer_update :: "LinearLayer \<Rightarrow> real \<Rightarrow> error + LinearLayer" where
  "LinearLayer_update self learning_rate =
     (case grad_B self of
        None \<Rightarrow> Inl AttributeError
      | Some gB \<Rightarrow>
          (case np_binop (-) (weight_B self) (map_matrix (\<lambda>g. learning_rate * g) gB) of
             Inl e \<Rightarrow> Inl e
           | Inr B' \<Rightarrow>
               (case grad_b self of
                  None \<Rightarrow> Inl AttributeError
                | Some gb \<Rightarrow>
                    (case np_binop_vec (-) (bias_b self) (map (\<lambda>g. learning_rate * g) gb) of
                       Inl e \<Rightarrow> Inl e
                     | Inr b' \<Rightarrow> Inr (self\<lparr>weight_B := B', bias_b := b'\<rparr>)))))"

section \<open>The layers of a network\<close>

text \<open>
  The network holds objects of the three layer classes and calls their methods by name.
  A call of \<^verbatim>\<open>backward\<close> with one argument on an OutputLayer, or with two on another
  layer, is Python's TypeError.
\<close>

datatype Layer = Linear LinearLayer | ReLU ReLULayer | Output OutputLayer

fun layer_forward :: "Layer \<Rightarrow> real matrix \<Rightarrow> error + (Layer \<times> real matrix)" where
  "layer_forward (Linear l) x =
     (case LinearLayer_forward l x of Inl e \<Rightarrow> Inl e | Inr (l', r) \<Rightarrow> Inr (Linear l', r))"
| "layer_forward (ReLU l) x = (case ReLULayer_forward l x of (l', r) \<Rightarrow> Inr (ReLU l', r))"
| "layer_forward (Output l) x =
     (case OutputLayer_forward l x of Inl e \<Rightarrow> Inl e | Inr (l', r) \<Rightarrow> Inr (Output l', r))"

fun layer_backward :: "Layer \<Rightarrow> real matrix \<Rightarrow> error + (Layer \<times> real matrix)" where
  "layer_backward (Linear l) g =
     (case LinearLayer_backward l g of Inl e \<Rightarrow> Inl e | Inr (l', d) \<Rightarrow> Inr (Linear l', d))"
| "layer_backward (ReLU l) g =
     (case ReLULayer_backward l g of Inl e \<Rightarrow> Inl e | Inr d \<Rightarrow> Inr (ReLU l, d))"
| "layer_backward (Output l) g = Inl TypeError"

fun layer_update :: "Layer \<Rightarrow> real \<Rightarrow> error + Layer" where
  "layer_update (Linear l) lr =
     (case LinearLayer_update l lr of Inl e \<Rightarrow> Inl e | Inr l' \<Rightarrow> Inr (Linear l'))"
| "layer_update (ReLU l) lr = Inr (ReLU (ReLULayer_update l lr))"
| "layer_update (Output l) lr = Inr (Output (OutputLayer_update l lr))"

section \<open>MLP\<close>

record MLP =
  n_layers :: nat
  layers :: "Layer list"

text \<open>
  The loop of the constructor over \<^verbatim>\<open>layer_sizes[:-1]\<close>; it carries the list built
  so far, the running \<^verbatim>\<open>n_in\<close> and the random source.
\<close>

fun init_interior ::
  "rng \<Rightarrow> int \<Rightarrow> int list \<Rightarrow> Layer list \<Rightarrow> error + (Layer list \<times> int \<times> rng)" where
  "init_interior g n_in [] acc = Inr (acc, n_in, g)"
| "init_interior g n_in (n_out # rest) acc =
     (case LinearLayer_init g n_in n_out of
        Inl e \<Rightarrow> Inl e
      | Inr (l, g') \<Rightarrow>
          init_interior g' n_out rest (acc @ [Linear l, ReLU \<lparr>relu_input = None\<rparr>]))"

text \<open>\<^verbatim>\<open>layer_sizes[-1]\<close> raises IndexError on the empty list.\<close>

definition MLP_init :: "rng \<Rightarrow> int \<Rightarrow> int list \<Rightarrow> error + (MLP \<times> rng)" where
  "MLP_init g n_features layer_sizes =
     (case init_interior g n_features (butlast layer_sizes) [] of
        Inl e \<Rightarrow> Inl e
      | Inr (ls, n_in, g1) \<Rightarrow>
          (if layer_sizes = [] then Inl IndexError
           else
             (let n_out = last layer_sizes
              in case LinearLayer_init g1 n_in n_out of
                   Inl e \<Rightarrow> Inl e
                 | Inr (l, g2) \<Rightarrow>
                     Inr (\<lparr>n_layers = length layer_sizes,
                           layers = ls @ [Linear l, Output (OutputLayer_init n_out)]\<rparr>, g2))))"

fun forward_layers :: "Layer list \<Rightarrow> real matrix \<Rightarrow> error + (Layer list \<times> real matrix)" where
  "forward_layers [] result = Inr ([], result)"
| "forward_layers (l # ls) result =
     (case layer_forward l result of
        Inl e \<Rightarrow> Inl e
      | Inr (l', r) \<Rightarrow>
          (case forward_layers ls r of
             Inl e \<Rightarrow> Inl e
           | Inr (ls', out) \<Rightarrow> Inr (l' # ls', out)))"

text \<open>
  The batch is a matrix, so \<^verbatim>\<open>X.reshape(batch_size, -1)\<close> changes nothing, but it
  raises ValueError for a batch with no rows (the size of the other axis cannot be
  inferred).
\<close>

definition MLP_forward :: "MLP \<Rightarrow> real matrix \<Rightarrow> error + (MLP \<times> real matrix)" where
  "MLP_forward self X =
     (if nrows X = 0 then Inl ValueError
      else case forward_layers (layers self) X of
             Inl e \<Rightarrow> Inl e
           | Inr (ls, result) \<Rightarrow> Inr (self\<lparr>layers := ls\<rparr>, result))"

text \<open>The loop over \<^verbatim>\<open>reversed(self.layers[:-1])\<close>, on the list already reversed.\<close>

fun backward_layers :: "Layer list \<Rightarrow> real matrix \<Rightarrow> error + Layer list" where
  "backward_layers [] upstream_gradient = Inr []"
| "backward_layers (l # ls) upstream_gradient =
     (case layer_backward l upstream_gradient of
        Inl e \<Rightarrow> Inl e
      | Inr (l', d) \<Rightarrow>
          (case backward_layers ls d of
             Inl e \<Rightarrow> Inl e
           | Inr ls' \<Rightarrow> Inr (l' # ls')))"

definition MLP_backward :: "MLP \<Rightarrow> real matrix \<Rightarrow> int list \<Rightarrow> error + MLP" where
  "MLP_backward self predicted_posteriors true_classes =
     (if layers self = [] then Inl IndexError
      else case last (layers self) of
             Output l \<Rightarrow>
               (case OutputLayer_backward l predicted_posteriors true_classes of
                  Inl e \<Rightarrow> Inl e
                | Inr upstream_gradient \<Rightarrow>
                    (case backward_layers (rev (butlast (layers self))) upstream_gradient of
                       Inl e \<Rightarrow> Inl e
                     | Inr ls' \<Rightarrow> Inr (self\<lparr>layers := rev ls' @ [Output l]\<rparr>)))
           | _ \<Rightarrow> Inl TypeError)"

fun update_layers :: "Layer list \<Rightarrow> real \<Rightarrow> error + Layer list" where
  "update_layers [] lr = Inr []"
| "update_layers (l # ls) lr =
     (case layer_update l lr of
        Inl e \<Rightarrow> Inl e
      | Inr l' \<Rightarrow>
          (case update_layers ls lr of
             Inl e \<Rightarrow> Inl e
           | Inr ls' \<Rightarrow> Inr (l' # ls')))"

text \<open>
  \<^verbatim>\<open>np.argmax(posteriors, axis=1)\<close> is computed and not used; it raises ValueError when
  the posteriors have no columns.
\<close>

definition MLP_update :: "MLP \<Rightarrow> real matrix \<Rightarrow> int list \<Rightarrow> real \<Rightarrow> error + MLP" where
  "MLP_update self X Y learning_rate =
     (case MLP_forward self X of
        Inl e \<Rightarrow> Inl e
      | Inr (self1, posteriors) \<Rightarrow>
          (if ncols posteriors = 0 then Inl ValueError
           else case MLP_backward self1 posteriors Y of
                  Inl e \<Rightarrow> Inl e
                | Inr self2 \<Rightarrow>
                    (case update_layers (layers self2) learning_rate of
                       Inl e \<Rightarrow> Inl e
                     | Inr ls \<Rightarrow> Inr (self2\<lparr>layers := ls\<rparr>))))"

section \<open>Training\<close>

text \<open>
  The indices of one mini-batch, \<^verbatim>\<open>permutation[start:start+batch_size]\<close> with
  \<^verbatim>\<open>start = batch * batch_size\<close>.
\<close>

definition batch_indices :: "nat list \<Rightarrow> int \<Rightarrow> nat \<Rightarrow> nat list" where
  "batch_indices permutation batch_size batch =
     (let start = int batch * batch_size
      in py_slice permutation start (start + batch_size))"

text \<open>
  The inner loop over \<^verbatim>\<open>range(n_batches)\<close>, on the list of the batch numbers still
  to come. The lines printed to the standard output are not modelled.
\<close>

fun train_batches ::
  "MLP \<Rightarrow> real matrix \<Rightarrow> int list \<Rightarrow> nat list \<Rightarrow> int \<Rightarrow> real \<Rightarrow> nat list \<Rightarrow> error + MLP" where
  "train_batches self x y permutation batch_size learning_rate [] = Inr self"
| "train_batches self x y permutation batch_size learning_rate (batch # rest) =
     (let idx = map int (batch_indices permutation batch_size batch)
      in case take_rows x idx of
           Inl e \<Rightarrow> Inl e
         | Inr x_batch \<Rightarrow>
             (case take_items y idx of
                Inl e \<Rightarrow> Inl e
              | Inr y_batch \<Rightarrow>
                  (case MLP_update self x_batch y_batch learning_rate of
                     Inl e \<Rightarrow> Inl e
                   | Inr self' \<Rightarrow>
                       train_batches self' x y permutation batch_size learning_rate rest)))"

text \<open>The outer loop over \<^verbatim>\<open>range(n_epochs)\<close>, on the list of the epochs still to come.\<close>

fun train_epochs ::
  "MLP \<Rightarrow> rng \<Rightarrow> real matrix \<Rightarrow> int list \<Rightarrow> int \<Rightarrow> real \<Rightarrow> nat \<Rightarrow> int \<Rightarrow> nat list
   \<Rightarrow> error + (MLP \<times> rng)" where
  "train_epochs self g x y batch_size learning_rate N n_batches [] = Inr (self, g)"
| "train_epochs self g x y batch_size learning_rate N n_batches (i # rest) =
     (case np_random_permutation g N of
        (permutation, g') \<Rightarrow>
          (case train_batches self x y permutation batch_size learning_rate
                  [0..<nat n_batches] of
             Inl e \<Rightarrow> Inl e
           | Inr self' \<Rightarrow>
               train_epochs self' g' x y batch_size learning_rate N n_batches rest))"

text \<open>
  \<^verbatim>\<open>N // batch_size\<close> is Python's floor division, which is \<open>div\<close> on \<open>int\<close>, and raises
  ZeroDivisionError for a batch size of 0. \<^verbatim>\<open>range(n)\<close> is empty for \<open>n \<le> 0\<close>.
\<close>

definition train ::
  "MLP \<Rightarrow> rng \<Rightarrow> real matrix \<Rightarrow> int list \<Rightarrow> int \<Rightarrow> int \<Rightarrow> real \<Rightarrow> error + (MLP \<times> rng)" where
  "train self g x y n_epochs batch_size learning_rate =
     (let N = nrows x
      in if batch_size = 0 then Inl ZeroDivisionError
         else
           (let n_batches = int N div batch_size
            in train_epochs self g x y batch_size learning_rate N n_batches
                 [0..<nat n_epochs]))"

section \<open>What a layer is and what it has learnt\<close>

text \<open>
  The trainable parameters of a layer (only a linear layer has any), and what a layer
  was constructed as: its class with the arguments of its constructor.
\<close>

fun params :: "Layer \<Rightarrow> (real matrix \<times> real list) option" where
  "params (Linear l) = Some (weight_B l, bias_b l)"
| "params (ReLU l) = None"
| "params (Output l) = None"

datatype layer_kind = LinearKind int int | ReLUKind | OutputKind int

fun kind :: "Layer \<Rightarrow> layer_kind" where
  "kind (Linear l) = LinearKind (n_inputs l) (n_outputs l)"
| "kind (ReLU l) = ReLUKind"
| "kind (Output l) = OutputKind (n_classes l)"

section \<open>The results in the words of the specification\<close>

text \<open>
  The one-hot encoding of a list of labels for n classes: one row per label, with 1 in
  the column of the label and 0 elsewhere. The array of zeros of a shape.
\<close>

definition one_hot :: "nat \<Rightarrow> int list \<Rightarrow> real matrix" where
  "one_hot n labels =
     \<lparr>nrows = length labels, ncols = n,
      rows = map (\<lambda>l. map (\<lambda>j. if int j = l then 1 else 0) [0..<n]) labels\<rparr>"

definition zeros :: "nat \<Rightarrow> nat \<Rightarrow> real matrix" where
  "zeros r c = \<lparr>nrows = r, ncols = c, rows = replicate r (replicate c 0)\<rparr>"

text \<open>
  The mini-batches of one epoch, in the order of the loop: one index list for each batch
  number below \<^verbatim>\<open>N // batch_size\<close>. Calling \<open>update\<close> once for each index list of a
  list, in order, on the rows of x and the labels of y that the indices select; the first
  error ends the run, as an exception would.
\<close>

definition epoch_batches :: "nat \<Rightarrow> int \<Rightarrow> nat list \<Rightarrow> nat list list" where
  "epoch_batches N batch_size permutation =
     map (batch_indices permutation batch_size) [0..<nat (int N div batch_size)]"

fun update_on_batches ::
  "MLP \<Rightarrow> real matrix \<Rightarrow> int list \<Rightarrow> real \<Rightarrow> nat list list \<Rightarrow> error + MLP" where
  "update_on_batches self x y lr [] = Inr self"
| "update_on_batches self x y lr (idx # rest) =
     (case take_rows x (map int idx) of
        Inl e \<Rightarrow> Inl e
      | Inr x_batch \<Rightarrow>
          (case take_items y (map int idx) of
             Inl e \<Rightarrow> Inl e
           | Inr y_batch \<Rightarrow>
               (case MLP_update self x_batch y_batch lr of
                  Inl e \<Rightarrow> Inl e
                | Inr self' \<Rightarrow> update_on_batches self' x y lr rest)))"

text \<open>
  The width that feeds each linear layer of a network built from \<open>n_features\<close> and
  \<open>layer_sizes\<close>, and the kinds of the layers that the loop of the constructor appends.
\<close>

fun interior_kinds :: "int \<Rightarrow> int list \<Rightarrow> layer_kind list" where
  "interior_kinds n_in [] = []"
| "interior_kinds n_in (w # ws) = LinearKind n_in w # ReLUKind # interior_kinds w ws"

section \<open>Concrete instances\<close>

text \<open>
  A linear layer with two inputs and two outputs, a batch of two instances and an
  upstream gradient for it, on which the theorems below are instantiated.
\<close>

definition ex_linear :: LinearLayer where
  "ex_linear =
     \<lparr>n_inputs = 2, n_outputs = 2,
      weight_B = \<lparr>nrows = 2, ncols = 2, rows = [[1, 2], [3, 4]]\<rparr>,
      bias_b = [10, 20], lin_input = None, grad_B = None, grad_b = None\<rparr>"

definition ex_batch :: "real matrix" where
  "ex_batch = \<lparr>nrows = 2, ncols = 2, rows = [[1, 1], [2, 0]]\<rparr>"

definition ex_upstream :: "real matrix" where
  "ex_upstream = \<lparr>nrows = 2, ncols = 2, rows = [[1, 0], [3, 2]]\<rparr>"

text \<open>The layer \<open>ex_linear\<close> after forward on \<open>ex_batch\<close> and backward on \<open>ex_upstream\<close>.\<close>

definition ex_primed :: LinearLayer where
  "ex_primed =
     ex_linear\<lparr>lin_input := Some ex_batch, grad_b := Some [2, 1],
               grad_B := Some \<lparr>nrows = 2, ncols = 2, rows = [[7, 4], [1, 0]]\<rparr>\<rparr>"

text \<open>
  A network of one linear layer and the output layer, as constructed and as it is after
  a forward pass on \<open>ex_batch\<close>.
\<close>

definition ex_net :: MLP where
  "ex_net =
     \<lparr>n_layers = 1,
      layers = [Linear ex_linear, Output \<lparr>n_classes = 2, out_input = None\<rparr>]\<rparr>"

definition ex_net_primed :: MLP where
  "ex_net_primed =
     \<lparr>n_layers = 1,
      layers = [Linear (ex_linear\<lparr>lin_input := Some ex_batch\<rparr>),
                Output \<lparr>n_classes = 2, out_input = None\<rparr>]\<rparr>"

text \<open>
  A random source whose normal samples are all 0 and whose permutations count down
  from N - 1 to 0.
\<close>

definition ex_rng :: rng where
  "ex_rng = \<lparr>normal_stream = (\<lambda>k. 0), normal_pos = 0,
             perm_stream = (\<lambda>k N. rev [0..<N]), perm_pos = 0\<rparr>"

text \<open>A dataset of 2000 instances with two features.\<close>

definition ex_data :: "real matrix" where
  "ex_data = \<lparr>nrows = 2000, ncols = 2, rows = replicate 2000 [0, 0]\<rparr>"

section \<open>Facts about the array operations\<close>

lemma bdim_same: "bdim n n = Some n"
  by (simp add: bdim_def)

lemma stretch_same: "length xs = n \<Longrightarrow> stretch n xs = xs"
  by (simp add: stretch_def)

lemma wf_matrix_rows:
  "wf_matrix A \<Longrightarrow> length (rows A) = nrows A"
  by (simp add: wf_matrix_def)

lemma wf_matrix_row_length:
  "wf_matrix A \<Longrightarrow> i < nrows A \<Longrightarrow> length (rows A ! i) = ncols A"
  by (simp add: wf_matrix_def list_all_length)

lemma wf_matrixI:
  "length (rows A) = nrows A \<Longrightarrow> (\<And>i. i < nrows A \<Longrightarrow> length (rows A ! i) = ncols A)
   \<Longrightarrow> wf_matrix A"
  by (simp add: wf_matrix_def list_all_length)

lemma map_stretch_same:
  "wf_matrix A \<Longrightarrow> map (stretch (ncols A)) (rows A) = rows A"
  by (rule map_idI) (auto simp: wf_matrix_def list_all_iff stretch_def)

lemma broadcast_to_same:
  "wf_matrix A \<Longrightarrow> broadcast_to (nrows A) (ncols A) A = A"
  by (simp add: broadcast_to_def map_stretch_same stretch_same wf_matrix_rows)

lemma np_binop_same_shape:
  assumes "wf_matrix A" "wf_matrix B" "nrows B = nrows A" "ncols B = ncols A"
  shows "np_binop f A B =
           Inr \<lparr>nrows = nrows A, ncols = ncols A, rows = map2 (map2 f) (rows A) (rows B)\<rparr>"
proof -
  have "broadcast_to (nrows A) (ncols A) B = B"
    using broadcast_to_same [OF assms(2)] assms(3,4) by simp
  then show ?thesis
    using assms by (simp add: np_binop_def bdim_same broadcast_to_same)
qed

lemma wf_map_matrix: "wf_matrix A \<Longrightarrow> wf_matrix (map_matrix f A)"
  by (simp add: wf_matrix_def map_matrix_def list_all_iff)

lemma entry_map_matrix:
  "wf_matrix A \<Longrightarrow> i < nrows A \<Longrightarrow> j < ncols A \<Longrightarrow>
   entry (map_matrix f A) i j = f (entry A i j)"
  by (simp add: entry_def map_matrix_def wf_matrix_rows wf_matrix_row_length)

lemma wf_map2_rows:
  assumes "wf_matrix A" "wf_matrix B" "nrows B = nrows A" "ncols B = ncols A"
  shows "wf_matrix \<lparr>nrows = nrows A, ncols = ncols A,
                    rows = map2 (map2 f) (rows A) (rows B)\<rparr>"
  using assms by (intro wf_matrixI) (simp_all add: wf_matrix_rows wf_matrix_row_length)

lemma entry_map2_rows:
  assumes "wf_matrix A" "wf_matrix B" "nrows B = nrows A" "ncols B = ncols A"
    and "i < nrows A" "j < ncols A"
  shows "entry \<lparr>nrows = nrows A, ncols = ncols A,
                rows = map2 (map2 f) (rows A) (rows B)\<rparr> i j = f (entry A i j) (entry B i j)"
  using assms by (simp add: entry_def wf_matrix_rows wf_matrix_row_length)

lemma all_less_two: "(\<forall>j<2::nat. P j) \<longleftrightarrow> P 0 \<and> P 1"
  by (auto simp: less_2_cases_iff)

lemma lessThan_two: "{..<2::nat} = {0, 1}"
  by auto

lemma upt_two: "[0..<2] = [0, 1]"
  by (simp add: upt_rec)

lemma sum_list_lessThan: "sum_list xs = (\<Sum>i<length xs. xs ! i)"
  by (simp add: sum_list_sum_nth atLeast0LessThan)

lemma dot_sum:
  assumes "length u = n" "length v = n"
  shows "dot u v = (\<Sum>k<n. u ! k * v ! k)"
proof -
  have "dot u v = (\<Sum>k<n. map2 (*) u v ! k)"
    using assms by (simp add: dot_def sum_list_lessThan)
  also have "\<dots> = (\<Sum>k<n. u ! k * v ! k)"
    using assms by (intro sum.cong) simp_all
  finally show ?thesis .
qed

lemma length_column: "length (column A j) = length (rows A)"
  by (simp add: column_def)

lemma nth_column: "i < length (rows A) \<Longrightarrow> column A j ! i = entry A i j"
  by (simp add: column_def entry_def)

lemma np_T_shape: "nrows (np_T A) = ncols A" "ncols (np_T A) = nrows A"
  by (simp_all add: np_T_def)

lemma wf_np_T: "wf_matrix A \<Longrightarrow> wf_matrix (np_T A)"
  by (rule wf_matrixI) (simp_all add: np_T_def length_column wf_matrix_rows)

lemma entry_np_T:
  "wf_matrix A \<Longrightarrow> i < nrows A \<Longrightarrow> j < ncols A \<Longrightarrow> entry (np_T A) j i = entry A i j"
  by (simp add: np_T_def entry_def column_def wf_matrix_rows)

lemma length_np_sum_axis0: "length (np_sum_axis0 A) = ncols A"
  by (simp add: np_sum_axis0_def)

lemma nth_np_sum_axis0:
  assumes "wf_matrix A" "j < ncols A"
  shows "np_sum_axis0 A ! j = (\<Sum>i<nrows A. entry A i j)"
proof -
  have "np_sum_axis0 A ! j = (\<Sum>i<length (column A j). column A j ! i)"
    using assms(2) by (simp add: np_sum_axis0_def sum_list_lessThan)
  also have "\<dots> = (\<Sum>i<nrows A. entry A i j)"
    using assms(1) by (intro sum.cong) (simp_all add: length_column nth_column wf_matrix_rows)
  finally show ?thesis .
qed

text \<open>The product of two matrices that fit: its shape and its entries.\<close>

lemma matmul_fits:
  "ncols A = nrows M \<Longrightarrow>
   matmul A M = Inr \<lparr>nrows = nrows A, ncols = ncols M, rows = matmul_rows A M\<rparr>"
  by (simp add: matmul_def)

lemma wf_matmul:
  "wf_matrix A \<Longrightarrow> wf_matrix \<lparr>nrows = nrows A, ncols = ncols M, rows = matmul_rows A M\<rparr>"
  by (rule wf_matrixI) (simp_all add: matmul_rows_def wf_matrix_rows)

lemma entry_matmul:
  assumes "wf_matrix A" "wf_matrix M" "ncols A = nrows M" "i < nrows A" "j < ncols M"
  shows "entry \<lparr>nrows = nrows A, ncols = ncols M, rows = matmul_rows A M\<rparr> i j
           = (\<Sum>k<ncols A. entry A i k * entry M k j)"
proof -
  have len: "length (rows A ! i) = ncols A" "length (column M j) = ncols A"
    using assms by (simp_all add: wf_matrix_row_length length_column wf_matrix_rows)
  have "entry \<lparr>nrows = nrows A, ncols = ncols M, rows = matmul_rows A M\<rparr> i j
          = dot (rows A ! i) (column M j)"
    using assms by (simp add: entry_def matmul_rows_def wf_matrix_rows)
  also have "\<dots> = (\<Sum>k<ncols A. rows A ! i ! k * column M j ! k)"
    by (rule dot_sum [OF len])
  also have "\<dots> = (\<Sum>k<ncols A. entry A i k * entry M k j)"
    using assms by (intro sum.cong) (simp_all add: nth_column wf_matrix_rows entry_def)
  finally show ?thesis .
qed

text \<open>A matrix combined with a one-dimensional array of the length of its rows.\<close>

lemma bdim_one: "bdim n 1 = Some n"
  by (simp add: bdim_def)

lemma broadcast_row_matrix:
  "length v = c \<Longrightarrow> rows (broadcast_to r c (row_matrix v)) = replicate r v"
  by (cases "r = 1") (simp_all add: broadcast_to_def row_matrix_def stretch_def)

lemma np_binop_row:
  assumes "wf_matrix A" "length v = ncols A"
  shows "np_binop f A (row_matrix v) =
           Inr \<lparr>nrows = nrows A, ncols = ncols A,
                rows = map (\<lambda>r. map2 f r v) (rows A)\<rparr>"
proof -
  have eq: "map2 (map2 f) (rows A) (replicate (nrows A) v) = map (\<lambda>r. map2 f r v) (rows A)"
    using assms(1) by (intro nth_equalityI) (simp_all add: wf_matrix_rows)
  have sh: "nrows (row_matrix v) = 1" "ncols (row_matrix v) = ncols A"
    using assms(2) by (simp_all add: row_matrix_def)
  have br: "rows (broadcast_to (nrows A) (ncols A) (row_matrix v)) = replicate (nrows A) v"
    by (rule broadcast_row_matrix [OF assms(2)])
  show ?thesis
    by (simp only: np_binop_def sh bdim_one bdim_same option.case
        broadcast_to_same [OF assms(1)] br eq)
qed

lemma wf_map_row:
  assumes "wf_matrix P" "length v = ncols P"
  shows "wf_matrix \<lparr>nrows = nrows P, ncols = ncols P,
                    rows = map (\<lambda>r. map2 f r v) (rows P)\<rparr>"
  using assms by (intro wf_matrixI) (simp_all add: wf_matrix_rows wf_matrix_row_length)

lemma entry_map_row:
  assumes "wf_matrix P" "length v = ncols P" "i < nrows P" "j < ncols P"
  shows "entry \<lparr>nrows = nrows P, ncols = ncols P,
                rows = map (\<lambda>r. map2 f r v) (rows P)\<rparr> i j = f (entry P i j) (v ! j)"
  using assms by (simp add: entry_def wf_matrix_rows wf_matrix_row_length)

text \<open>Products with a transposed factor, as backward forms them.\<close>

lemma wf_matmul_T_left:
  "wf_matrix A \<Longrightarrow>
   wf_matrix \<lparr>nrows = ncols A, ncols = ncols M, rows = matmul_rows (np_T A) M\<rparr>"
  using wf_matmul [OF wf_np_T, of A M] by (simp add: np_T_shape)

lemma entry_matmul_T_left:
  assumes "wf_matrix A" "wf_matrix M" "nrows A = nrows M" "i < ncols A" "j < ncols M"
  shows "entry \<lparr>nrows = ncols A, ncols = ncols M, rows = matmul_rows (np_T A) M\<rparr> i j
           = (\<Sum>k<nrows A. entry A k i * entry M k j)"
proof -
  have "entry \<lparr>nrows = nrows (np_T A), ncols = ncols M, rows = matmul_rows (np_T A) M\<rparr> i j
          = (\<Sum>k<ncols (np_T A). entry (np_T A) i k * entry M k j)"
    using assms by (intro entry_matmul wf_np_T) (simp_all add: np_T_shape)
  also have "\<dots> = (\<Sum>k<nrows A. entry A k i * entry M k j)"
    using assms(1,4) by (intro sum.cong) (simp_all add: np_T_shape entry_np_T)
  finally show ?thesis
    by (simp add: np_T_shape)
qed

lemma wf_matmul_T_right:
  "wf_matrix A \<Longrightarrow>
   wf_matrix \<lparr>nrows = nrows A, ncols = nrows M, rows = matmul_rows A (np_T M)\<rparr>"
  using wf_matmul [of A "np_T M"] by (simp add: np_T_shape)

lemma entry_matmul_T_right:
  assumes "wf_matrix A" "wf_matrix M" "ncols A = ncols M" "i < nrows A" "j < nrows M"
  shows "entry \<lparr>nrows = nrows A, ncols = nrows M, rows = matmul_rows A (np_T M)\<rparr> i j
           = (\<Sum>k<ncols A. entry A i k * entry M j k)"
proof -
  have "entry \<lparr>nrows = nrows A, ncols = ncols (np_T M), rows = matmul_rows A (np_T M)\<rparr> i j
          = (\<Sum>k<ncols A. entry A i k * entry (np_T M) k j)"
    using assms by (intro entry_matmul wf_np_T) (simp_all add: np_T_shape)
  also have "\<dots> = (\<Sum>k<ncols A. entry A i k * entry M j k)"
    using assms(2,3,5) by (intro sum.cong) (simp_all add: entry_np_T)
  finally show ?thesis
    by (simp add: np_T_shape)
qed

lemma np_binop_vec_same_length:
  "length v = length u \<Longrightarrow> np_binop_vec f u v = Inr (map2 f u v)"
  by (simp add: np_binop_vec_def bdim_same stretch_same)

lemma map_matrix_shape: "nrows (map_matrix f A) = nrows A" "ncols (map_matrix f A) = ncols A"
  by (simp_all add: map_matrix_def)

section \<open>Facts about LinearLayer\<close>

lemma LinearLayer_forward_state:
  "LinearLayer_forward self inp = Inr (s, out) \<Longrightarrow> s = self\<lparr>lin_input := Some inp\<rparr>"
  by (auto simp: LinearLayer_forward_def split: sum.splits)

lemma LinearLayer_forward_run:
  assumes "wf_matrix inp" "ncols inp = nrows (weight_B self)"
    and "length (bias_b self) = ncols (weight_B self)"
  shows "LinearLayer_forward self inp =
           Inr (self\<lparr>lin_input := Some inp\<rparr>,
                \<lparr>nrows = nrows inp, ncols = ncols (weight_B self),
                 rows = map (\<lambda>r. map2 (+) r (bias_b self))
                          (matmul_rows inp (weight_B self))\<rparr>)"
proof -
  let ?P = "\<lparr>nrows = nrows inp, ncols = ncols (weight_B self),
             rows = matmul_rows inp (weight_B self)\<rparr>"
  have "wf_matrix ?P"
    by (rule wf_matmul [OF assms(1)])
  moreover have "length (bias_b self) = ncols ?P"
    using assms(3) by simp
  ultimately have "np_binop (+) ?P (row_matrix (bias_b self)) =
      Inr \<lparr>nrows = nrows ?P, ncols = ncols ?P,
           rows = map (\<lambda>r. map2 (+) r (bias_b self)) (rows ?P)\<rparr>"
    by (rule np_binop_row)
  then show ?thesis
    by (simp add: LinearLayer_forward_def matmul_fits [OF assms(2)])
qed

lemma LinearLayer_backward_run:
  assumes "lin_input self = Some inp" "nrows inp = nrows up"
    and "ncols up = ncols (weight_B self)"
  shows "LinearLayer_backward self up =
           Inr (self\<lparr>grad_b := Some (map (\<lambda>s. s / real (nrows up)) (np_sum_axis0 up)),
                     grad_B := Some \<lparr>nrows = ncols inp, ncols = ncols up,
                                     rows = matmul_rows (np_T inp) up\<rparr>\<rparr>,
                \<lparr>nrows = nrows up, ncols = nrows (weight_B self),
                 rows = matmul_rows up (np_T (weight_B self))\<rparr>)"
proof -
  have "ncols (np_T inp) = nrows up" "ncols up = nrows (np_T (weight_B self))"
    using assms(2,3) by (simp_all add: np_T_shape)
  then show ?thesis
    using assms(1) by (simp add: LinearLayer_backward_def matmul_fits np_T_shape)
qed

lemma LinearLayer_backward_state:
  "LinearLayer_backward self up = Inr (s, d) \<Longrightarrow>
   \<exists>gb gB. s = self\<lparr>grad_b := Some gb, grad_B := Some gB\<rparr>"
  by (auto simp: LinearLayer_backward_def Let_def split: option.splits sum.splits)

section \<open>Facts about OutputLayer\<close>

lemma OutputLayer_forward_state:
  "OutputLayer_forward self inp = Inr (s, out) \<Longrightarrow> s = self\<lparr>out_input := Some inp\<rparr>"
  by (auto simp: OutputLayer_forward_def split: sum.splits)

lemma mapM_all_Inr:
  "(\<And>x. x \<in> set xs \<Longrightarrow> f x = Inr (g x)) \<Longrightarrow> mapM f xs = Inr (map g xs)"
  by (induction xs) simp_all

lemma np_index_in_range:
  "0 \<le> t \<Longrightarrow> t < int (length xs) \<Longrightarrow> np_index xs t = Inr (xs ! nat t)"
  by (simp add: np_index_def)

lemma get_one_hot_run:
  assumes "\<And>l. l \<in> set labels \<Longrightarrow> 0 \<le> l \<and> l < int n"
  shows "get_one_hot labels (int n) = Inr (one_hot n labels)"
proof -
  let ?eye = "map (\<lambda>i. map (\<lambda>j. if i = j then 1 else 0::real) [0..<n]) [0..<n]"
  have row: "np_index ?eye l = Inr (map (\<lambda>j. if int j = l then 1 else 0) [0..<n])"
    if "l \<in> set labels" for l
  proof -
    have r: "0 \<le> l" "l < int n" "nat l < n"
      using assms [OF that] by auto
    have "np_index ?eye l = Inr (?eye ! nat l)"
      using r by (intro np_index_in_range) simp_all
    also have "?eye ! nat l = map (\<lambda>j. if nat l = j then 1 else 0) [0..<n]"
      using r(3) by simp
    also have "\<dots> = map (\<lambda>j. if int j = l then 1 else 0) [0..<n]"
      using r(1) by (intro map_cong) auto
    finally show ?thesis .
  qed
  have "mapM (np_index ?eye) labels
      = Inr (map (\<lambda>l. map (\<lambda>j. if int j = l then 1 else 0) [0..<n]) labels)"
    by (rule mapM_all_Inr) (rule row)
  then show ?thesis
    by (simp add: get_one_hot_def np_eye_def take_rows_def one_hot_def)
qed

lemma wf_one_hot: "wf_matrix (one_hot n labels)"
  by (simp add: wf_matrix_def one_hot_def list_all_iff)

lemma entry_one_hot:
  "i < length labels \<Longrightarrow> j < n \<Longrightarrow>
   entry (one_hot n labels) i j = (if int j = labels ! i then 1 else 0)"
  by (simp add: entry_def one_hot_def)

lemma matrix_eqI:
  assumes "wf_matrix A" "wf_matrix M" "nrows A = nrows M" "ncols A = ncols M"
    and "\<And>i j. i < nrows A \<Longrightarrow> j < ncols A \<Longrightarrow> entry A i j = entry M i j"
  shows "A = (M :: 'a matrix)"
proof -
  have "rows A = rows M"
  proof (rule nth_equalityI)
    show "length (rows A) = length (rows M)"
      using assms(1-3) by (simp add: wf_matrix_rows)
    fix i assume "i < length (rows A)"
    then have i: "i < nrows A" "i < nrows M"
      using assms(1,3) by (simp_all add: wf_matrix_rows)
    show "rows A ! i = rows M ! i"
    proof (rule nth_equalityI)
      show "length (rows A ! i) = length (rows M ! i)"
        using i assms(1,2,4) by (simp add: wf_matrix_row_length)
      fix j assume "j < length (rows A ! i)"
      then have "j < ncols A"
        using i assms(1) by (simp add: wf_matrix_row_length)
      then show "rows A ! i ! j = rows M ! i ! j"
        using assms(5) [OF i(1)] by (simp add: entry_def)
    qed
  qed
  then show ?thesis
    using assms(3,4) by simp
qed

lemma wf_zeros: "wf_matrix (zeros r c)"
  by (simp add: wf_matrix_def zeros_def list_all_iff)

lemma entry_zeros: "i < r \<Longrightarrow> j < c \<Longrightarrow> entry (zeros r c) i j = 0"
  by (simp add: entry_def zeros_def)

section \<open>Facts about the network\<close>

lemma layer_forward_same:
  assumes "layer_forward l x = Inr (l', r)"
  shows "params l' = params l \<and> kind l' = kind l"
proof (cases l)
  case (Linear a)
  then show ?thesis
    using assms by (auto split: sum.splits dest: LinearLayer_forward_state)
next
  case (ReLU a)
  then show ?thesis
    using assms by (auto simp: ReLULayer_forward_def)
next
  case (Output a)
  then show ?thesis
    using assms by (auto split: sum.splits dest: OutputLayer_forward_state)
qed

lemma forward_layers_same:
  "forward_layers ls x = Inr (ls', out) \<Longrightarrow>
   map params ls' = map params ls \<and> map kind ls' = map kind ls"
proof (induction ls arbitrary: x ls' out)
  case Nil
  then show ?case by simp
next
  case (Cons l ls)
  from Cons.prems obtain l' r ls1 where
    l: "layer_forward l x = Inr (l', r)" and
    rest: "forward_layers ls r = Inr (ls1, out)" and ls': "ls' = l' # ls1"
    by (auto split: sum.splits)
  show ?case
    using layer_forward_same [OF l] Cons.IH [OF rest] ls' by simp
qed

lemma layer_backward_same:
  assumes "layer_backward l g = Inr (l', d)"
  shows "params l' = params l \<and> kind l' = kind l"
proof (cases l)
  case (Linear a)
  then show ?thesis
    using assms by (auto split: sum.splits dest: LinearLayer_backward_state)
next
  case (ReLU a)
  then show ?thesis
    using assms by (auto split: sum.splits)
next
  case (Output a)
  then show ?thesis
    using assms by simp
qed

lemma backward_layers_same:
  "backward_layers ls g = Inr ls' \<Longrightarrow>
   map params ls' = map params ls \<and> map kind ls' = map kind ls"
proof (induction ls arbitrary: g ls')
  case Nil
  then show ?case by simp
next
  case (Cons l ls)
  from Cons.prems obtain l' d ls1 where
    l: "layer_backward l g = Inr (l', d)" and
    rest: "backward_layers ls d = Inr ls1" and ls': "ls' = l' # ls1"
    by (auto split: sum.splits)
  show ?case
    using layer_backward_same [OF l] Cons.IH [OF rest] ls' by simp
qed

lemma LinearLayer_update_state:
  "LinearLayer_update self lr = Inr s \<Longrightarrow> \<exists>W' b'. s = self\<lparr>weight_B := W', bias_b := b'\<rparr>"
  by (auto simp: LinearLayer_update_def split: option.splits sum.splits)

lemma layer_update_kind:
  assumes "layer_update l lr = Inr l'"
  shows "kind l' = kind l"
proof (cases l)
  case (Linear a)
  then show ?thesis
    using assms by (auto split: sum.splits dest: LinearLayer_update_state)
next
  case (ReLU a)
  then show ?thesis
    using assms by (auto simp: ReLULayer_update_def)
next
  case (Output a)
  then show ?thesis
    using assms by (auto simp: OutputLayer_update_def)
qed

lemma update_layers_kind: "update_layers ls lr = Inr ls' \<Longrightarrow> map kind ls' = map kind ls"
proof (induction ls arbitrary: ls')
  case Nil
  then show ?case by simp
next
  case (Cons l ls)
  from Cons.prems obtain l' ls1 where
    l: "layer_update l lr = Inr l'" and
    rest: "update_layers ls lr = Inr ls1" and ls': "ls' = l' # ls1"
    by (auto split: sum.splits)
  show ?case
    using layer_update_kind [OF l] Cons.IH [OF rest] ls' by simp
qed

lemma MLP_forward_same:
  assumes "MLP_forward net X = Inr (net', out)"
  shows "map params (layers net') = map params (layers net)"
    and "map kind (layers net') = map kind (layers net)"
    and "n_layers net' = n_layers net"
proof -
  from assms obtain ls where
    f: "forward_layers (layers net) X = Inr (ls, out)" and n: "net' = net\<lparr>layers := ls\<rparr>"
    by (auto simp: MLP_forward_def split: if_splits sum.splits)
  show "map params (layers net') = map params (layers net)"
    and "map kind (layers net') = map kind (layers net)"
    and "n_layers net' = n_layers net"
    using forward_layers_same [OF f] n by simp_all
qed

lemma MLP_backward_same:
  assumes "MLP_backward net p y = Inr net'"
  shows "map params (layers net') = map params (layers net)"
    and "map kind (layers net') = map kind (layers net)"
    and "n_layers net' = n_layers net"
proof -
  from assms obtain l g ls' where
    ne: "layers net \<noteq> []" and la: "last (layers net) = Output l" and
    b: "backward_layers (rev (butlast (layers net))) g = Inr ls'" and
    n: "net' = net\<lparr>layers := rev ls' @ [Output l]\<rparr>"
    by (auto simp: MLP_backward_def split: if_splits sum.splits Layer.splits)
  obtain front where front: "layers net = front @ [Output l]"
    using ne la by (metis append_butlast_last_id)
  have b': "backward_layers (rev front) g = Inr ls'"
    using b front by simp
  have e: "map params ls' = map params (rev front)" "map kind ls' = map kind (rev front)"
    using backward_layers_same [OF b'] by blast+
  have "map params (rev ls') = rev (map params ls')"
    by (simp add: rev_map)
  also have "\<dots> = rev (map params (rev front))"
    by (simp only: e(1))
  finally have p: "map params (rev ls') = map params front"
    by (simp add: rev_map)
  have "map kind (rev ls') = rev (map kind ls')"
    by (simp add: rev_map)
  also have "\<dots> = rev (map kind (rev front))"
    by (simp only: e(2))
  finally have k: "map kind (rev ls') = map kind front"
    by (simp add: rev_map)
  show "map params (layers net') = map params (layers net)"
    using n p front by simp
  show "map kind (layers net') = map kind (layers net)"
    using n k front by simp
  show "n_layers net' = n_layers net"
    using n by simp
qed

section \<open>Facts about training\<close>

lemma py_slice_inside:
  "0 \<le> a \<Longrightarrow> a \<le> b \<Longrightarrow> b \<le> int (length xs) \<Longrightarrow>
   py_slice xs a b = take (nat (b - a)) (drop (nat a) xs)"
  by (simp add: py_slice_def Let_def min_def)

lemma batch_indices_inside:
  assumes "0 < batch_size" "(int b + 1) * batch_size \<le> int (length perm)"
  shows "batch_indices perm batch_size b = take (nat batch_size) (drop (b * nat batch_size) perm)"
proof -
  have s: "0 \<le> int b * batch_size" "int b * batch_size \<le> int b * batch_size + batch_size"
    "int b * batch_size + batch_size \<le> int (length perm)"
    using assms by (simp_all add: algebra_simps)
  have n: "nat (int b * batch_size) = b * nat batch_size"
    using assms(1) by (simp add: nat_mult_distrib)
  show ?thesis
    using py_slice_inside [OF s] by (simp add: batch_indices_def Let_def n)
qed

lemma concat_take_drop:
  "k * m \<le> length xs \<Longrightarrow>
   concat (map (\<lambda>b. take m (drop (b * m) xs)) [0..<k]) = take (k * m) xs"
proof (induction k)
  case 0
  then show ?case by simp
next
  case (Suc k)
  then have IH: "concat (map (\<lambda>b. take m (drop (b * m) xs)) [0..<k]) = take (k * m) xs"
    by simp
  have "concat (map (\<lambda>b. take m (drop (b * m) xs)) [0..<Suc k])
      = take (k * m) xs @ take m (drop (k * m) xs)"
    by (simp add: IH)
  also have "\<dots> = take (k * m + m) xs"
    by (rule take_add [symmetric])
  finally show ?case
    by (simp add: add.commute)
qed

lemma update_on_batches_append:
  "update_on_batches self x y lr (as @ bs) =
     (case update_on_batches self x y lr as of
        Inl e \<Rightarrow> Inl e
      | Inr s \<Rightarrow> update_on_batches s x y lr bs)"
  by (induction as arbitrary: self) (simp_all split: sum.splits)

lemma train_batches_eq:
  "train_batches self x y perm bs lr ns =
     update_on_batches self x y lr (map (batch_indices perm bs) ns)"
  by (induction ns arbitrary: self) (simp_all add: Let_def split: sum.splits)

lemma train_epochs_eq:
  "train_epochs self g x y bs lr N nb es =
     (case update_on_batches self x y lr
             (concat (map (\<lambda>i. map (batch_indices (perm_stream g (perm_pos g + i) N) bs)
                                     [0..<nat nb]) [0..<length es])) of
        Inl e \<Rightarrow> Inl e
      | Inr s \<Rightarrow> Inr (s, g\<lparr>perm_pos := perm_pos g + length es\<rparr>))"
proof (induction es arbitrary: self g)
  case Nil
  then show ?case by simp
next
  case (Cons i es)
  let ?g' = "g\<lparr>perm_pos := perm_pos g + 1\<rparr>"
  let ?first = "map (batch_indices (perm_stream g (perm_pos g) N) bs) [0..<nat nb]"
  let ?rest = "concat (map (\<lambda>i. map (batch_indices (perm_stream g (perm_pos g + 1 + i) N) bs)
                                     [0..<nat nb]) [0..<length es])"
  have shift: "[0..<length (i # es)] = 0 # map Suc [0..<length es]"
    by (simp add: upt_conv_Cons map_Suc_upt del: upt_Suc)
  have all: "concat (map (\<lambda>i. map (batch_indices (perm_stream g (perm_pos g + i) N) bs)
                                     [0..<nat nb]) [0..<length (i # es)]) = ?first @ ?rest"
    unfolding shift by (simp add: comp_def)
  show ?case
    unfolding all update_on_batches_append
    by (simp add: np_random_permutation_def train_batches_eq Cons.IH split: sum.splits)
qed

lemma train_eq:
  assumes "batch_size \<noteq> 0"
  shows "train self g x y n_epochs batch_size lr =
     (case update_on_batches self x y lr
             (concat (map (\<lambda>i. epoch_batches (nrows x) batch_size
                                    (perm_stream g (perm_pos g + i) (nrows x)))
                          [0..<nat n_epochs])) of
        Inl e \<Rightarrow> Inl e
      | Inr s \<Rightarrow> Inr (s, g\<lparr>perm_pos := perm_pos g + nat n_epochs\<rparr>))"
  using assms by (simp add: train_def Let_def train_epochs_eq epoch_batches_def split: sum.splits)

lemma permutation_length: "distinct p \<Longrightarrow> set p = {..<N::nat} \<Longrightarrow> length p = N"
  using distinct_card [of p] by simp

lemma epoch_batches_take_drop:
  assumes "0 < batch_size" "length p = N"
  shows "epoch_batches N batch_size p =
           map (\<lambda>b. take (nat batch_size) (drop (b * nat batch_size) p))
               [0..<N div nat batch_size]"
proof -
  let ?m = "nat batch_size"
  have m: "0 < ?m" "int ?m = batch_size"
    using assms(1) by simp_all
  have nb: "nat (int N div batch_size) = N div ?m"
    using m(2) by (metis nat_int zdiv_int)
  have each: "batch_indices p batch_size b = take ?m (drop (b * ?m) p)"
    if "b \<in> set [0..<N div ?m]" for b
  proof (rule batch_indices_inside [OF assms(1)])
    have "Suc b \<le> N div ?m"
      using that by simp
    then have "Suc b * ?m \<le> N div ?m * ?m"
      by (rule mult_le_mono1)
    also have "\<dots> \<le> N"
      by (simp add: div_times_less_eq_dividend)
    finally have "Suc b * ?m \<le> N" .
    then have "int (Suc b * ?m) \<le> int N"
      by (simp only: of_nat_le_iff)
    moreover have "int (Suc b * ?m) = (int b + 1) * int ?m"
      by (simp add: algebra_simps)
    ultimately show "(int b + 1) * batch_size \<le> int (length p)"
      using assms(2) by (simp only: m(2))
  qed
  show ?thesis
    unfolding epoch_batches_def nb by (rule map_cong [OF refl each])
qed

lemma epoch_batches_facts:
  assumes "0 < batch_size" "length p = N"
  shows "length (epoch_batches N batch_size p) = N div nat batch_size"
    and "\<And>b. b \<in> set (epoch_batches N batch_size p) \<Longrightarrow> length b = nat batch_size"
    and "concat (epoch_batches N batch_size p) = take (N div nat batch_size * nat batch_size) p"
proof -
  let ?m = "nat batch_size"
  note eq = epoch_batches_take_drop [OF assms]
  have le: "N div ?m * ?m \<le> length p"
    using assms(2) by (simp add: div_times_less_eq_dividend)
  show "length (epoch_batches N batch_size p) = N div ?m"
    by (simp add: eq)
  show "concat (epoch_batches N batch_size p) = take (N div ?m * ?m) p"
    unfolding eq by (rule concat_take_drop [OF le])
  fix b assume "b \<in> set (epoch_batches N batch_size p)"
  then obtain k where k: "k < N div ?m" and b: "b = take ?m (drop (k * ?m) p)"
    unfolding eq by auto
  have "Suc k * ?m \<le> N div ?m * ?m"
    using k by (intro mult_le_mono1) simp
  then have "k * ?m + ?m \<le> length p"
    using le by simp
  then show "length b = ?m"
    by (simp add: b)
qed

lemma MLP_update_same:
  assumes "MLP_update net X Y lr = Inr net'"
  shows "map kind (layers net') = map kind (layers net)" and "n_layers net' = n_layers net"
proof -
  from assms obtain n1 post n2 ls where
    f: "MLP_forward net X = Inr (n1, post)" and
    b: "MLP_backward n1 post Y = Inr n2" and
    u: "update_layers (layers n2) lr = Inr ls" and
    n: "net' = n2\<lparr>layers := ls\<rparr>"
    by (auto simp: MLP_update_def split: sum.splits if_splits)
  show "map kind (layers net') = map kind (layers net)"
    using update_layers_kind [OF u] MLP_backward_same(2) [OF b] MLP_forward_same(2) [OF f] n
    by simp
  show "n_layers net' = n_layers net"
    using MLP_backward_same(3) [OF b] MLP_forward_same(3) [OF f] n by simp
qed

lemma update_on_batches_same:
  "update_on_batches net x y lr bs = Inr net' \<Longrightarrow>
   map kind (layers net') = map kind (layers net) \<and> n_layers net' = n_layers net"
proof (induction bs arbitrary: net)
  case Nil
  then show ?case by simp
next
  case (Cons idx bs)
  from Cons.prems obtain xb yb n1 where
    u: "MLP_update net xb yb lr = Inr n1" and
    rest: "update_on_batches n1 x y lr bs = Inr net'"
    by (auto split: sum.splits)
  show ?case
    using Cons.IH [OF rest] MLP_update_same [OF u] by simp
qed

lemma train_same:
  assumes "train net g x y n_epochs batch_size lr = Inr (net', g')"
  shows "map kind (layers net') = map kind (layers net) \<and> n_layers net' = n_layers net"
proof -
  have nz: "batch_size \<noteq> 0"
    using assms by (auto simp: train_def)
  from assms obtain bs where "update_on_batches net x y lr bs = Inr net'"
    unfolding train_eq [OF nz] by (auto split: sum.splits)
  then show ?thesis
    by (rule update_on_batches_same)
qed

section \<open>Facts about the constructor\<close>

lemma LinearLayer_init_run:
  assumes "0 \<le> a" "0 \<le> b"
  shows "\<exists>l g'. LinearLayer_init g a b = Inr (l, g') \<and> n_inputs l = a \<and> n_outputs l = b"
  using assms
  by (simp add: LinearLayer_init_def np_random_normal_matrix_def np_random_normal_vector_def)

lemma init_interior_run:
  assumes "0 \<le> n_in" "\<forall>w\<in>set ws. 0 \<le> w"
  shows "\<exists>ls g'. init_interior g n_in ws acc = Inr (acc @ ls, last (n_in # ws), g')
           \<and> map kind ls = interior_kinds n_in ws"
  using assms
proof (induction ws arbitrary: g n_in acc)
  case Nil
  then show ?case by simp
next
  case (Cons w ws)
  have w: "0 \<le> w" and ws: "\<forall>v\<in>set ws. 0 \<le> v"
    using Cons.prems(2) by simp_all
  obtain l g1 where l: "LinearLayer_init g n_in w = Inr (l, g1)"
    and k: "n_inputs l = n_in" "n_outputs l = w"
    using LinearLayer_init_run [OF Cons.prems(1) w, of g] by (elim exE conjE)
  let ?acc = "acc @ [Linear l, ReLU \<lparr>relu_input = None\<rparr>]"
  obtain ls g' where r: "init_interior g1 w ws ?acc = Inr (?acc @ ls, last (w # ws), g')"
    and rk: "map kind ls = interior_kinds w ws"
    using Cons.IH [OF w ws, of g1 ?acc] by (elim exE conjE)
  have "init_interior g n_in (w # ws) acc
      = Inr (acc @ (Linear l # ReLU \<lparr>relu_input = None\<rparr> # ls), last (n_in # w # ws), g')"
    using l r by simp
  moreover have "map kind (Linear l # ReLU \<lparr>relu_input = None\<rparr> # ls)
      = interior_kinds n_in (w # ws)"
    using k rk by simp
  ultimately show ?case
    by (intro exI conjI)
qed

lemma length_interior_kinds: "length (interior_kinds n ws) = 2 * length ws"
  by (induction ws arbitrary: n) simp_all

lemma nth_interior_kinds:
  "k < length ws \<Longrightarrow>
   interior_kinds n ws ! (2 * k) = LinearKind ((n # ws) ! k) (ws ! k)
   \<and> interior_kinds n ws ! (2 * k + 1) = ReLUKind"
proof (induction ws arbitrary: n k)
  case Nil
  then show ?case by simp
next
  case (Cons w ws)
  show ?case
  proof (cases k)
    case 0
    then show ?thesis by simp
  next
    case (Suc j)
    then have "j < length ws"
      using Cons.prems by simp
    from Cons.IH [OF this, of w] show ?thesis
      using Suc by simp
  qed
qed

lemma MLP_init_run:
  assumes "0 \<le> n" "ls \<noteq> []" "\<forall>w\<in>set ls. 0 \<le> w"
  shows "\<exists>net g'. MLP_init g n ls = Inr (net, g') \<and> n_layers net = length ls
           \<and> map kind (layers net)
               = interior_kinds n (butlast ls)
                 @ [LinearKind (last (n # butlast ls)) (last ls), OutputKind (last ls)]"
proof -
  have bl: "\<forall>w\<in>set (butlast ls). 0 \<le> w"
    using assms(3) by (meson in_set_butlastD)
  obtain front g1 where i: "init_interior g n (butlast ls) []
        = Inr ([] @ front, last (n # butlast ls), g1)"
    and fk: "map kind front = interior_kinds n (butlast ls)"
    using init_interior_run [OF assms(1) bl, of g "[]"] by (elim exE conjE)
  have nin: "0 \<le> last (n # butlast ls)"
    using assms(1) bl by (cases "butlast ls = []") (simp_all add: last_in_set)
  have nout: "0 \<le> last ls"
    using assms(2,3) by simp
  obtain l g2 where l: "LinearLayer_init g1 (last (n # butlast ls)) (last ls) = Inr (l, g2)"
    and k: "n_inputs l = last (n # butlast ls)" "n_outputs l = last ls"
    using LinearLayer_init_run [OF nin nout, of g1] by (elim exE conjE)
  let ?net = "\<lparr>n_layers = length ls,
               layers = front @ [Linear l, Output (OutputLayer_init (last ls))]\<rparr>"
  have "MLP_init g n ls = Inr (?net, g2)"
    using i l assms(2) by (simp add: MLP_init_def Let_def)
  moreover have "n_layers ?net = length ls"
    by simp
  moreover have "map kind (layers ?net)
      = interior_kinds n (butlast ls)
        @ [LinearKind (last (n # butlast ls)) (last ls), OutputKind (last ls)]"
    using fk k by (simp add: OutputLayer_init_def)
  ultimately show ?thesis
    by (intro exI conjI)
qed

lemma cons_butlast_nth: "k < length ls \<Longrightarrow> (n # butlast ls) ! k = (n # ls) ! k"
  by (cases k) (simp_all add: nth_butlast)

lemma network_kinds_positions:
  fixes ls :: "int list" and n :: int
  assumes "ls \<noteq> []"
  defines "K \<equiv> interior_kinds n (butlast ls)
                 @ [LinearKind (last (n # butlast ls)) (last ls), OutputKind (last ls)]"
  shows "length K = 2 * length ls"
    and "\<And>k. k < length ls \<Longrightarrow> K ! (2 * k) = LinearKind ((n # ls) ! k) (ls ! k)"
    and "\<And>k. k < length ls - 1 \<Longrightarrow> K ! (2 * k + 1) = ReLUKind"
    and "K ! (2 * length ls - 1) = OutputKind (last ls)"
proof -
  let ?I = "interior_kinds n (butlast ls)"
  obtain m where m: "length ls = Suc m"
    using assms(1) by (cases ls) auto
  have lenI: "length ?I = 2 * m"
    by (simp add: length_interior_kinds m)
  show "length K = 2 * length ls"
    by (simp add: K_def lenI m)
  show "K ! (2 * length ls - 1) = OutputKind (last ls)"
  proof -
    have "2 * length ls - 1 = length ?I + 1"
      by (simp add: lenI m)
    then show ?thesis
      by (simp add: K_def nth_append)
  qed
  show "K ! (2 * k + 1) = ReLUKind" if "k < length ls - 1" for k
  proof -
    have km: "k < m"
      using that by (simp add: m)
    then have "2 * k + 1 < length ?I"
      by (simp add: lenI)
    then have "K ! (2 * k + 1) = ?I ! (2 * k + 1)"
      by (simp add: K_def nth_append)
    also have "\<dots> = ReLUKind"
      using nth_interior_kinds [of k "butlast ls" n] km by (simp add: m)
    finally show ?thesis .
  qed
  show "K ! (2 * k) = LinearKind ((n # ls) ! k) (ls ! k)" if "k < length ls" for k
  proof (cases "k < m")
    case True
    then have "2 * k < length ?I"
      by (simp add: lenI)
    then have "K ! (2 * k) = ?I ! (2 * k)"
      by (simp add: K_def nth_append)
    also have "\<dots> = LinearKind ((n # butlast ls) ! k) (butlast ls ! k)"
      using nth_interior_kinds [of k "butlast ls" n] True by (simp add: m)
    also have "(n # butlast ls) ! k = (n # ls) ! k"
      by (rule cons_butlast_nth [OF that])
    also have "butlast ls ! k = ls ! k"
      using True by (simp add: nth_butlast m)
    finally show ?thesis .
  next
    case False
    then have k: "k = m"
      using that by (simp add: m)
    then have "2 * k = length ?I"
      by (simp add: lenI)
    then have K2: "K ! (2 * k) = LinearKind (last (n # butlast ls)) (last ls)"
      by (simp add: K_def nth_append)
    have "last (n # butlast ls) = (n # butlast ls) ! (length (n # butlast ls) - 1)"
      by (rule last_conv_nth) simp
    moreover have "length (n # butlast ls) - 1 = k"
      using k by (simp add: m)
    ultimately have "last (n # butlast ls) = (n # butlast ls) ! k"
      by (simp only:)
    then have lastn: "last (n # butlast ls) = (n # ls) ! k"
      by (simp only: cons_butlast_nth [OF that])
    have lastl: "last ls = ls ! k"
      using k assms(1) by (simp add: last_conv_nth m)
    show ?thesis
      by (simp only: K2 lastn lastl)
  qed
qed

section \<open>ReLU backward\<close>



section \<open>Linear forward\<close>

text \<open>
  C4. For a linear layer with weights W of shape n_inputs x n_outputs and bias b of
  length n_outputs, and an input of shape batch x n_inputs, \<open>forward(input)\<close> succeeds,
  leaves the layer as it was but with \<open>input\<close> in its cache, and returns an array of
  shape batch x n_outputs whose entry (i, j) is the sum over k of input[i, k] * W[k, j],
  plus b[j]: the bias is added to every row.
\<close>

theorem C4_linear_forward:
  assumes "wf_matrix (weight_B self)" "nrows (weight_B self) = n_in"
    and "ncols (weight_B self) = n_out" "length (bias_b self) = n_out"
    and "wf_matrix inp" "nrows inp = batch" "ncols inp = n_in"
  shows "\<exists>out. LinearLayer_forward self inp = Inr (self\<lparr>lin_input := Some inp\<rparr>, out)
           \<and> wf_matrix out \<and> nrows out = batch \<and> ncols out = n_out
           \<and> (\<forall>i<batch. \<forall>j<n_out.
                 entry out i j
                   = (\<Sum>k<n_in. entry inp i k * entry (weight_B self) k j) + bias_b self ! j)"
proof -
  let ?W = "weight_B self"
  let ?P = "\<lparr>nrows = nrows inp, ncols = ncols ?W, rows = matmul_rows inp ?W\<rparr>"
  let ?out = "\<lparr>nrows = nrows ?P, ncols = ncols ?P,
               rows = map (\<lambda>r. map2 (+) r (bias_b self)) (rows ?P)\<rparr>"
  have fit: "ncols inp = nrows ?W" and lb: "length (bias_b self) = ncols ?P"
    using assms by simp_all
  have wP: "wf_matrix ?P"
    by (rule wf_matmul [OF assms(5)])
  have run: "LinearLayer_forward self inp = Inr (self\<lparr>lin_input := Some inp\<rparr>, ?out)"
    using LinearLayer_forward_run [OF assms(5) fit] assms(3,4) by simp
  have wo: "wf_matrix ?out"
    by (rule wf_map_row [OF wP lb])
  have ent: "entry ?out i j = (\<Sum>k<n_in. entry inp i k * entry ?W k j) + bias_b self ! j"
    if "i < batch" "j < n_out" for i j
  proof -
    have ij: "i < nrows ?P" "j < ncols ?P" "i < nrows inp" "j < ncols ?W"
      using that assms by simp_all
    have "entry ?out i j = entry ?P i j + bias_b self ! j"
      by (rule entry_map_row [OF wP lb ij(1,2)])
    also have "entry ?P i j = (\<Sum>k<ncols inp. entry inp i k * entry ?W k j)"
      by (rule entry_matmul [OF assms(5,1) fit ij(3,4)])
    finally show ?thesis
      using assms(7) by simp
  qed
  show ?thesis
    using run wo ent assms(3,6) by (intro exI [of _ ?out]) simp
qed

theorem C4_linear_forward_witness:
  "wf_matrix (weight_B ex_linear) \<and> length (bias_b ex_linear) = 2 \<and> wf_matrix ex_batch
   \<and> (\<exists>out. LinearLayer_forward ex_linear ex_batch
               = Inr (ex_linear\<lparr>lin_input := Some ex_batch\<rparr>, out)
          \<and> nrows out = 2 \<and> ncols out = 2
          \<and> entry out 0 0 = 14 \<and> entry out 0 1 = 26 \<and> entry out 1 0 = 12 \<and> entry out 1 1 = 24)"
proof -
  have h: "wf_matrix (weight_B ex_linear)" "nrows (weight_B ex_linear) = 2"
    "ncols (weight_B ex_linear) = 2" "length (bias_b ex_linear) = 2"
    "wf_matrix ex_batch" "nrows ex_batch = 2" "ncols ex_batch = 2"
    by (simp_all add: wf_matrix_def ex_linear_def ex_batch_def)
  obtain out where run: "LinearLayer_forward ex_linear ex_batch
        = Inr (ex_linear\<lparr>lin_input := Some ex_batch\<rparr>, out)"
    and sh: "nrows out = 2" "ncols out = 2"
    and e: "\<forall>i<2. \<forall>j<2. entry out i j
              = (\<Sum>k<2. entry ex_batch i k * entry (weight_B ex_linear) k j)
                + bias_b ex_linear ! j"
    using C4_linear_forward [OF h] by blast
  have "entry out 0 0 = 14" "entry out 0 1 = 26" "entry out 1 0 = 12" "entry out 1 1 = 24"
    using e by (simp_all add: all_less_two lessThan_two ex_batch_def ex_linear_def entry_def)
  with h run sh show ?thesis by blast
qed

section \<open>Linear backward\<close>

text \<open>
  C1. For a linear layer with weights W of shape n_inputs x n_outputs, an input of shape
  batch x n_inputs and an upstream gradient of shape batch x n_outputs: after
  \<open>forward(input)\<close>, \<open>backward(upstream_gradient)\<close> succeeds and stores \<open>grad_b\<close> of
  length n_outputs with grad_b[j] the sum over the batch of upstream[i, j] divided by
  the batch size, the mean (said for a batch that is not empty: the mean of no rows is
  nan in numpy), stores \<open>grad_B\<close> of shape n_inputs x n_outputs with entry (i, j) the
  sum over the batch of input[k, i] * upstream[k, j], which is input transposed times
  upstream with no division by the batch size, and returns the array of shape
  batch x n_inputs with entry (k, i) the sum over j of upstream[k, j] * W[i, j], which
  is upstream times W transposed.
\<close>

theorem C1_linear_backward:
  assumes "wf_matrix (weight_B self)" "nrows (weight_B self) = n_in"
    and "ncols (weight_B self) = n_out"
    and "wf_matrix inp" "nrows inp = batch" "ncols inp = n_in"
    and "wf_matrix up" "nrows up = batch" "ncols up = n_out"
    and "LinearLayer_forward self inp = Inr (self1, out)"
  shows "\<exists>self2 d gb gB.
           LinearLayer_backward self1 up = Inr (self2, d)
           \<and> grad_b self2 = Some gb \<and> length gb = n_out
           \<and> (0 < batch \<longrightarrow> (\<forall>j<n_out. gb ! j = (\<Sum>i<batch. entry up i j) / real batch))
           \<and> grad_B self2 = Some gB \<and> wf_matrix gB \<and> nrows gB = n_in \<and> ncols gB = n_out
           \<and> (\<forall>i<n_in. \<forall>j<n_out. entry gB i j = (\<Sum>k<batch. entry inp k i * entry up k j))
           \<and> wf_matrix d \<and> nrows d = batch \<and> ncols d = n_in
           \<and> (\<forall>k<batch. \<forall>i<n_in.
                 entry d k i = (\<Sum>j<n_out. entry up k j * entry (weight_B self) i j))"
proof -
  let ?W = "weight_B self"
  define gb where "gb = map (\<lambda>s. s / real (nrows up)) (np_sum_axis0 up)"
  define gB where "gB = \<lparr>nrows = ncols inp, ncols = ncols up, rows = matmul_rows (np_T inp) up\<rparr>"
  define d where "d = \<lparr>nrows = nrows up, ncols = nrows ?W, rows = matmul_rows up (np_T ?W)\<rparr>"
  define self2 where "self2 = self1\<lparr>grad_b := Some gb, grad_B := Some gB\<rparr>"
  have s1: "self1 = self\<lparr>lin_input := Some inp\<rparr>"
    by (rule LinearLayer_forward_state [OF assms(10)])
  have run: "LinearLayer_backward self1 up = Inr (self2, d)"
    using LinearLayer_backward_run [of self1 inp up] assms(3,5,8,9) s1
    by (simp add: self2_def gb_def gB_def d_def)
  have stored: "grad_b self2 = Some gb" "grad_B self2 = Some gB"
    by (simp_all add: self2_def)
  have gb_len: "length gb = n_out"
    using assms(9) by (simp add: gb_def length_np_sum_axis0)
  have gb_nth: "gb ! j = (\<Sum>i<batch. entry up i j) / real batch" if "j < n_out" for j
    using that assms(8,9) nth_np_sum_axis0 [OF assms(7), of j]
    by (simp add: gb_def length_np_sum_axis0)
  have gB_wf: "wf_matrix gB"
    unfolding gB_def by (rule wf_matmul_T_left [OF assms(4)])
  have gB_sh: "nrows gB = n_in" "ncols gB = n_out"
    using assms(6,9) by (simp_all add: gB_def)
  have gB_ent: "entry gB i j = (\<Sum>k<batch. entry inp k i * entry up k j)"
    if "i < n_in" "j < n_out" for i j
    using entry_matmul_T_left [OF assms(4,7), of i j] that assms(5,6,8,9)
    by (simp add: gB_def)
  have d_wf: "wf_matrix d"
    unfolding d_def by (rule wf_matmul_T_right [OF assms(7)])
  have d_sh: "nrows d = batch" "ncols d = n_in"
    using assms(2,8) by (simp_all add: d_def)
  have d_ent: "entry d k i = (\<Sum>j<n_out. entry up k j * entry ?W i j)"
    if "k < batch" "i < n_in" for k i
    using entry_matmul_T_right [OF assms(7,1), of k i] that assms(2,3,8,9)
    by (simp add: d_def)
  have all: "LinearLayer_backward self1 up = Inr (self2, d)
           \<and> grad_b self2 = Some gb \<and> length gb = n_out
           \<and> (0 < batch \<longrightarrow> (\<forall>j<n_out. gb ! j = (\<Sum>i<batch. entry up i j) / real batch))
           \<and> grad_B self2 = Some gB \<and> wf_matrix gB \<and> nrows gB = n_in \<and> ncols gB = n_out
           \<and> (\<forall>i<n_in. \<forall>j<n_out. entry gB i j = (\<Sum>k<batch. entry inp k i * entry up k j))
           \<and> wf_matrix d \<and> nrows d = batch \<and> ncols d = n_in
           \<and> (\<forall>k<batch. \<forall>i<n_in.
                 entry d k i = (\<Sum>j<n_out. entry up k j * entry (weight_B self) i j))"
  proof (intro conjI allI impI)
    show "LinearLayer_backward self1 up = Inr (self2, d)" by (rule run)
    show "grad_b self2 = Some gb" by (rule stored(1))
    show "length gb = n_out" by (rule gb_len)
    show "gb ! j = (\<Sum>i<batch. entry up i j) / real batch" if "0 < batch" "j < n_out" for j
      by (rule gb_nth [OF that(2)])
    show "grad_B self2 = Some gB" by (rule stored(2))
    show "wf_matrix gB" by (rule gB_wf)
    show "nrows gB = n_in" by (rule gB_sh(1))
    show "ncols gB = n_out" by (rule gB_sh(2))
    show "entry gB i j = (\<Sum>k<batch. entry inp k i * entry up k j)"
      if "i < n_in" "j < n_out" for i j by (rule gB_ent [OF that])
    show "wf_matrix d" by (rule d_wf)
    show "nrows d = batch" by (rule d_sh(1))
    show "ncols d = n_in" by (rule d_sh(2))
    show "entry d k i = (\<Sum>j<n_out. entry up k j * entry ?W i j)"
      if "k < batch" "i < n_in" for k i by (rule d_ent [OF that])
  qed
  show ?thesis
    apply (rule exI [of _ self2])
    apply (rule exI [of _ d])
    apply (rule exI [of _ gb])
    apply (rule exI [of _ gB])
    apply (rule all)
    done
qed

theorem C1_linear_backward_witness:
  "wf_matrix (weight_B ex_linear) \<and> wf_matrix ex_batch \<and> wf_matrix ex_upstream
   \<and> (\<exists>out self2 d gb gB.
          LinearLayer_forward ex_linear ex_batch
            = Inr (ex_linear\<lparr>lin_input := Some ex_batch\<rparr>, out)
        \<and> LinearLayer_backward (ex_linear\<lparr>lin_input := Some ex_batch\<rparr>) ex_upstream
            = Inr (self2, d)
        \<and> grad_b self2 = Some gb \<and> gb ! 0 = 2 \<and> gb ! 1 = 1
        \<and> grad_B self2 = Some gB
        \<and> entry gB 0 0 = 7 \<and> entry gB 0 1 = 4 \<and> entry gB 1 0 = 1 \<and> entry gB 1 1 = 0
        \<and> entry d 0 0 = 1 \<and> entry d 0 1 = 3 \<and> entry d 1 0 = 7 \<and> entry d 1 1 = 17)"
proof -
  let ?s1 = "ex_linear\<lparr>lin_input := Some ex_batch\<rparr>"
  have h: "wf_matrix (weight_B ex_linear)" "nrows (weight_B ex_linear) = 2"
    "ncols (weight_B ex_linear) = 2"
    "wf_matrix ex_batch" "nrows ex_batch = 2" "ncols ex_batch = 2"
    "wf_matrix ex_upstream" "nrows ex_upstream = 2" "ncols ex_upstream = 2"
    by (simp_all add: wf_matrix_def ex_linear_def ex_batch_def ex_upstream_def)
  obtain out where fw: "LinearLayer_forward ex_linear ex_batch = Inr (?s1, out)"
    using LinearLayer_forward_run [of ex_batch ex_linear] h
    by (simp add: ex_linear_def)
  from C1_linear_backward [OF h fw]
  obtain self2 d gb gB where run: "LinearLayer_backward ?s1 ex_upstream = Inr (self2, d)"
    and gb: "grad_b self2 = Some gb"
      "0 < (2::nat) \<longrightarrow> (\<forall>j<2. gb ! j = (\<Sum>i<2. entry ex_upstream i j) / real 2)"
    and gB: "grad_B self2 = Some gB"
      "\<forall>i<2. \<forall>j<2. entry gB i j = (\<Sum>k<2. entry ex_batch k i * entry ex_upstream k j)"
    and d: "\<forall>k<2. \<forall>i<2.
              entry d k i = (\<Sum>j<2. entry ex_upstream k j * entry (weight_B ex_linear) i j)"
    by (elim exE conjE)
  have v1: "gb ! 0 = 2" "gb ! 1 = 1"
    using gb(2) by (simp_all add: all_less_two lessThan_two ex_upstream_def entry_def)
  have v2: "entry gB 0 0 = 7" "entry gB 0 1 = 4" "entry gB 1 0 = 1" "entry gB 1 1 = 0"
    using gB(2)
    by (simp_all add: all_less_two lessThan_two ex_batch_def ex_upstream_def entry_def)
  have v3: "entry d 0 0 = 1" "entry d 0 1 = 3" "entry d 1 0 = 7" "entry d 1 1 = 17"
    using d
    by (simp_all add: all_less_two lessThan_two ex_upstream_def ex_linear_def entry_def)
  have all: "LinearLayer_forward ex_linear ex_batch = Inr (?s1, out)
        \<and> LinearLayer_backward ?s1 ex_upstream = Inr (self2, d)
        \<and> grad_b self2 = Some gb \<and> gb ! 0 = 2 \<and> gb ! 1 = 1
        \<and> grad_B self2 = Some gB
        \<and> entry gB 0 0 = 7 \<and> entry gB 0 1 = 4 \<and> entry gB 1 0 = 1 \<and> entry gB 1 1 = 0
        \<and> entry d 0 0 = 1 \<and> entry d 0 1 = 3 \<and> entry d 1 0 = 7 \<and> entry d 1 1 = 17"
    using fw run gb(1) v1 gB(1) v2 v3 by (intro conjI)
  have "\<exists>out self2 d gb gB.
          LinearLayer_forward ex_linear ex_batch = Inr (?s1, out)
        \<and> LinearLayer_backward ?s1 ex_upstream = Inr (self2, d)
        \<and> grad_b self2 = Some gb \<and> gb ! 0 = 2 \<and> gb ! 1 = 1
        \<and> grad_B self2 = Some gB
        \<and> entry gB 0 0 = 7 \<and> entry gB 0 1 = 4 \<and> entry gB 1 0 = 1 \<and> entry gB 1 1 = 0
        \<and> entry d 0 0 = 1 \<and> entry d 0 1 = 3 \<and> entry d 1 0 = 7 \<and> entry d 1 1 = 17"
    apply (rule exI [of _ out])
    apply (rule exI [of _ self2])
    apply (rule exI [of _ d])
    apply (rule exI [of _ gb])
    apply (rule exI [of _ gB])
    apply (rule all)
    done
  then show ?thesis
    using h(1,4,7) by (intro conjI)
qed

section \<open>Linear update\<close>

text \<open>
  C5. For a linear layer with W of shape n_inputs x n_outputs and b of length n_outputs
  that holds stored gradients \<open>grad_B\<close> and \<open>grad_b\<close> of these shapes (as backward leaves
  them), and every learning rate, \<open>update(learning_rate)\<close> succeeds and yields the same
  layer with W replaced by W - learning_rate * grad_B and b by b - learning_rate * grad_b,
  entry by entry; every other field, the stored gradients included, stays as it was.
\<close>

theorem C5_linear_update:
  assumes "wf_matrix (weight_B self)" "nrows (weight_B self) = n_in"
    and "ncols (weight_B self) = n_out" "length (bias_b self) = n_out"
    and "grad_B self = Some gB" "wf_matrix gB" "nrows gB = n_in" "ncols gB = n_out"
    and "grad_b self = Some gb" "length gb = n_out"
  shows "\<exists>W' b'. LinearLayer_update self lr = Inr (self\<lparr>weight_B := W', bias_b := b'\<rparr>)
           \<and> wf_matrix W' \<and> nrows W' = n_in \<and> ncols W' = n_out
           \<and> (\<forall>i<n_in. \<forall>j<n_out. entry W' i j = entry (weight_B self) i j - lr * entry gB i j)
           \<and> length b' = n_out
           \<and> (\<forall>j<n_out. b' ! j = bias_b self ! j - lr * gb ! j)"
proof -
  let ?W = "weight_B self"
  let ?G = "map_matrix (\<lambda>g. lr * g) gB"
  let ?W' = "\<lparr>nrows = nrows ?W, ncols = ncols ?W, rows = map2 (map2 (-)) (rows ?W) (rows ?G)\<rparr>"
  let ?b' = "map2 (-) (bias_b self) (map (\<lambda>g. lr * g) gb)"
  have wG: "wf_matrix ?G"
    by (rule wf_map_matrix [OF assms(6)])
  have sG: "nrows ?G = nrows ?W" "ncols ?G = ncols ?W"
    using assms(2,3,7,8) by (simp_all add: map_matrix_shape)
  have stepW: "np_binop (-) ?W ?G = Inr ?W'"
    by (rule np_binop_same_shape [OF assms(1) wG sG])
  have stepb: "np_binop_vec (-) (bias_b self) (map (\<lambda>g. lr * g) gb) = Inr ?b'"
    using assms(4,10) by (intro np_binop_vec_same_length) simp
  have run: "LinearLayer_update self lr = Inr (self\<lparr>weight_B := ?W', bias_b := ?b'\<rparr>)"
    by (simp add: LinearLayer_update_def assms(5,9) stepW stepb)
  have wW': "wf_matrix ?W'"
    by (rule wf_map2_rows [OF assms(1) wG sG])
  have entW: "entry ?W' i j = entry ?W i j - lr * entry gB i j"
    if "i < n_in" "j < n_out" for i j
  proof -
    have ij: "i < nrows ?W" "j < ncols ?W" "i < nrows gB" "j < ncols gB"
      using that assms(2,3,7,8) by simp_all
    have "entry ?W' i j = entry ?W i j - entry ?G i j"
      by (rule entry_map2_rows [OF assms(1) wG sG ij(1,2)])
    also have "entry ?G i j = lr * entry gB i j"
      by (rule entry_map_matrix [OF assms(6) ij(3,4)])
    finally show ?thesis .
  qed
  have lenb: "length ?b' = n_out"
    using assms(4,10) by simp
  have entb: "?b' ! j = bias_b self ! j - lr * gb ! j" if "j < n_out" for j
    using that assms(4,10) by simp
  have "LinearLayer_update self lr = Inr (self\<lparr>weight_B := ?W', bias_b := ?b'\<rparr>)
      \<and> wf_matrix ?W' \<and> nrows ?W' = n_in \<and> ncols ?W' = n_out
      \<and> (\<forall>i<n_in. \<forall>j<n_out. entry ?W' i j = entry ?W i j - lr * entry gB i j)
      \<and> length ?b' = n_out
      \<and> (\<forall>j<n_out. ?b' ! j = bias_b self ! j - lr * gb ! j)"
    using run wW' entW lenb entb assms(2,3) by simp
  then show ?thesis
    by blast
qed

theorem C5_linear_update_witness:
  "LinearLayer_backward (ex_linear\<lparr>lin_input := Some ex_batch\<rparr>) ex_upstream
     = Inr (ex_primed, \<lparr>nrows = 2, ncols = 2, rows = [[1, 3], [7, 17]]\<rparr>)
   \<and> (\<exists>W' b'. LinearLayer_update ex_primed (1 / 2)
                 = Inr (ex_primed\<lparr>weight_B := W', bias_b := b'\<rparr>)
          \<and> entry W' 0 0 = - 5 / 2 \<and> entry W' 0 1 = 0 \<and> entry W' 1 0 = 5 / 2
          \<and> entry W' 1 1 = 4 \<and> b' ! 0 = 9 \<and> b' ! 1 = 39 / 2)"
proof -
  let ?gB = "\<lparr>nrows = 2, ncols = 2, rows = [[7, 4], [1, 0::real]]\<rparr>"
  have bw: "LinearLayer_backward (ex_linear\<lparr>lin_input := Some ex_batch\<rparr>) ex_upstream
      = Inr (ex_primed, \<lparr>nrows = 2, ncols = 2, rows = [[1, 3], [7, 17]]\<rparr>)"
    by (simp add: LinearLayer_backward_def ex_primed_def ex_linear_def ex_batch_def
        ex_upstream_def matmul_def matmul_rows_def np_T_def np_sum_axis0_def column_def dot_def
        upt_two)
  have h: "wf_matrix (weight_B ex_primed)" "nrows (weight_B ex_primed) = 2"
    "ncols (weight_B ex_primed) = 2" "length (bias_b ex_primed) = 2"
    "grad_B ex_primed = Some ?gB" "wf_matrix ?gB" "nrows ?gB = 2" "ncols ?gB = 2"
    "grad_b ex_primed = Some [2, 1]" "length [2, 1::real] = 2"
    by (simp_all add: wf_matrix_def ex_primed_def ex_linear_def)
  obtain W' b' where run: "LinearLayer_update ex_primed (1 / 2)
        = Inr (ex_primed\<lparr>weight_B := W', bias_b := b'\<rparr>)"
    and W': "\<forall>i<2. \<forall>j<2. entry W' i j = entry (weight_B ex_primed) i j - 1 / 2 * entry ?gB i j"
    and b': "\<forall>j<2. b' ! j = bias_b ex_primed ! j - 1 / 2 * [2, 1] ! j"
    using C5_linear_update [OF h, of "1 / 2"] by blast
  have "entry W' 0 0 = - 5 / 2" "entry W' 0 1 = 0" "entry W' 1 0 = 5 / 2" "entry W' 1 1 = 4"
    using W' by (simp_all add: all_less_two ex_primed_def ex_linear_def entry_def)
  moreover have "b' ! 0 = 9" "b' ! 1 = 39 / 2"
    using b' by (simp_all add: all_less_two ex_primed_def ex_linear_def)
  ultimately show ?thesis
    using bw run by blast
qed

section \<open>The parameters are changed by update only\<close>

text \<open>
  C9. A linear layer that returns from \<open>forward\<close> is the layer it was with the input in
  its cache, and one that returns from \<open>backward\<close> is the layer it was with \<open>grad_b\<close> and
  \<open>grad_B\<close> stored: in both, the weights W and the bias b are those of before. The same
  holds for every linear layer of a network across the network's forward pass and its
  backward pass.
\<close>

theorem C9_parameters_unchanged:
  "(LinearLayer_forward self inp = Inr (s, out) \<longrightarrow>
      s = self\<lparr>lin_input := Some inp\<rparr> \<and> weight_B s = weight_B self \<and> bias_b s = bias_b self)
   \<and> (LinearLayer_backward self up = Inr (s', d) \<longrightarrow>
      (\<exists>gb gB. s' = self\<lparr>grad_b := Some gb, grad_B := Some gB\<rparr>)
      \<and> weight_B s' = weight_B self \<and> bias_b s' = bias_b self)
   \<and> (MLP_forward net X = Inr (netf, post) \<longrightarrow>
      map params (layers netf) = map params (layers net))
   \<and> (MLP_backward net p y = Inr netb \<longrightarrow>
      map params (layers netb) = map params (layers net))"
proof (intro conjI impI)
  assume f: "LinearLayer_forward self inp = Inr (s, out)"
  show "s = self\<lparr>lin_input := Some inp\<rparr>"
    by (rule LinearLayer_forward_state [OF f])
  then show "weight_B s = weight_B self" and "bias_b s = bias_b self"
    by simp_all
next
  assume b: "LinearLayer_backward self up = Inr (s', d)"
  show st: "\<exists>gb gB. s' = self\<lparr>grad_b := Some gb, grad_B := Some gB\<rparr>"
    by (rule LinearLayer_backward_state [OF b])
  from st show "weight_B s' = weight_B self" and "bias_b s' = bias_b self"
    by auto
next
  assume "MLP_forward net X = Inr (netf, post)"
  then show "map params (layers netf) = map params (layers net)"
    by (rule MLP_forward_same)
next
  assume "MLP_backward net p y = Inr netb"
  then show "map params (layers netb) = map params (layers net)"
    by (rule MLP_backward_same)
qed

theorem C9_parameters_unchanged_witness:
  "(\<exists>s out. LinearLayer_forward ex_linear ex_batch = Inr (s, out)
       \<and> s = ex_linear\<lparr>lin_input := Some ex_batch\<rparr>
       \<and> weight_B s = \<lparr>nrows = 2, ncols = 2, rows = [[1, 2], [3, 4]]\<rparr> \<and> bias_b s = [10, 20])
   \<and> (\<exists>s' d. LinearLayer_backward (ex_linear\<lparr>lin_input := Some ex_batch\<rparr>) ex_upstream
                 = Inr (s', d)
       \<and> weight_B s' = \<lparr>nrows = 2, ncols = 2, rows = [[1, 2], [3, 4]]\<rparr> \<and> bias_b s' = [10, 20])
   \<and> (\<exists>net1 post. MLP_forward ex_net ex_batch = Inr (net1, post)
       \<and> map params (layers net1)
           = [Some (\<lparr>nrows = 2, ncols = 2, rows = [[1, 2], [3, 4]]\<rparr>, [10, 20]), None])
   \<and> (\<exists>net2. MLP_backward ex_net_primed ex_upstream [0, 1] = Inr net2
       \<and> map params (layers net2)
           = [Some (\<lparr>nrows = 2, ncols = 2, rows = [[1, 2], [3, 4]]\<rparr>, [10, 20]), None])"
proof -
  obtain s out where f: "LinearLayer_forward ex_linear ex_batch = Inr (s, out)"
    using LinearLayer_forward_run [of ex_batch ex_linear]
    by (simp add: wf_matrix_def ex_linear_def ex_batch_def)
  obtain s' d where b:
    "LinearLayer_backward (ex_linear\<lparr>lin_input := Some ex_batch\<rparr>) ex_upstream = Inr (s', d)"
    using LinearLayer_backward_run [of "ex_linear\<lparr>lin_input := Some ex_batch\<rparr>" ex_batch
        ex_upstream]
    by (simp add: ex_linear_def ex_batch_def ex_upstream_def)
  obtain net1 post where mf: "MLP_forward ex_net ex_batch = Inr (net1, post)"
    by (simp add: MLP_forward_def ex_net_def ex_batch_def ex_linear_def
        LinearLayer_forward_def OutputLayer_forward_def matmul_def np_binop_def bdim_def
        row_matrix_def np_sum_axis1_keepdims_def np_exp_def map_matrix_def)
  obtain net2 where mb: "MLP_backward ex_net_primed ex_upstream [0, 1] = Inr net2"
    by (simp add: MLP_backward_def ex_net_primed_def OutputLayer_backward_def get_one_hot_def
        np_eye_def take_rows_def np_index_def np_binop_def bdim_def broadcast_to_def
        stretch_def ex_upstream_def upt_two LinearLayer_backward_def ex_linear_def
        ex_batch_def matmul_def np_T_def Let_def)
  note inst = C9_parameters_unchanged [where self = ex_linear and inp = ex_batch and s = s
      and out = out and net = ex_net and X = ex_batch and netf = net1 and post = post]
  note inst' = C9_parameters_unchanged [where self = "ex_linear\<lparr>lin_input := Some ex_batch\<rparr>"
      and up = ex_upstream and s' = s' and d = d and net = ex_net_primed and p = ex_upstream
      and y = "[0, 1]" and netb = net2]
  have 1: "s = ex_linear\<lparr>lin_input := Some ex_batch\<rparr>"
    "weight_B s = \<lparr>nrows = 2, ncols = 2, rows = [[1, 2], [3, 4]]\<rparr>" "bias_b s = [10, 20]"
    using inst f by (simp_all add: ex_linear_def)
  have 2: "weight_B s' = \<lparr>nrows = 2, ncols = 2, rows = [[1, 2], [3, 4]]\<rparr>"
    "bias_b s' = [10, 20]"
    using inst' b by (simp_all add: ex_linear_def)
  have 3: "map params (layers net1)
      = [Some (\<lparr>nrows = 2, ncols = 2, rows = [[1, 2], [3, 4]]\<rparr>, [10, 20]), None]"
    using inst mf by (simp add: ex_net_def ex_linear_def)
  have 4: "map params (layers net2)
      = [Some (\<lparr>nrows = 2, ncols = 2, rows = [[1, 2], [3, 4]]\<rparr>, [10, 20]), None]"
    using inst' mb by (simp add: ex_net_primed_def ex_linear_def)
  have A: "\<exists>s out. LinearLayer_forward ex_linear ex_batch = Inr (s, out)
       \<and> s = ex_linear\<lparr>lin_input := Some ex_batch\<rparr>
       \<and> weight_B s = \<lparr>nrows = 2, ncols = 2, rows = [[1, 2], [3, 4]]\<rparr> \<and> bias_b s = [10, 20]"
    using f 1 by (intro exI [of _ s] exI [of _ out] conjI)
  have B: "\<exists>s' d. LinearLayer_backward (ex_linear\<lparr>lin_input := Some ex_batch\<rparr>) ex_upstream
                 = Inr (s', d)
       \<and> weight_B s' = \<lparr>nrows = 2, ncols = 2, rows = [[1, 2], [3, 4]]\<rparr> \<and> bias_b s' = [10, 20]"
    using b 2 by (intro exI [of _ s'] exI [of _ d] conjI)
  have C: "\<exists>net1 post. MLP_forward ex_net ex_batch = Inr (net1, post)
       \<and> map params (layers net1)
           = [Some (\<lparr>nrows = 2, ncols = 2, rows = [[1, 2], [3, 4]]\<rparr>, [10, 20]), None]"
    using mf 3 by (intro exI [of _ net1] exI [of _ post] conjI)
  have D: "\<exists>net2. MLP_backward ex_net_primed ex_upstream [0, 1] = Inr net2
       \<and> map params (layers net2)
           = [Some (\<lparr>nrows = 2, ncols = 2, rows = [[1, 2], [3, 4]]\<rparr>, [10, 20]), None]"
    using mb 4 by (intro exI [of _ net2] conjI)
  show ?thesis
    using A B C D by (intro conjI)
qed

section \<open>Output backward\<close>

text \<open>
  C2. For predicted posteriors of shape batch x n_classes and a vector of batch labels,
  each in [0, n_classes), \<open>OutputLayer.backward\<close> succeeds and returns the array of that
  shape with entry (i, j) equal to predicted[i, j] minus 1 if j is the label of row i and
  minus 0 otherwise: predicted minus the one-hot encoding of the labels. When the
  predicted posteriors are the one-hot encoding of the labels, the result is the array
  of zeros.
\<close>

theorem C2_output_backward:
  assumes "wf_matrix p" "nrows p = batch" "ncols p = n" "n_classes self = int n"
    and "length labels = batch" "\<forall>l\<in>set labels. 0 \<le> l \<and> l < int n"
  shows "(\<exists>g. OutputLayer_backward self p labels = Inr g
            \<and> wf_matrix g \<and> nrows g = batch \<and> ncols g = n
            \<and> (\<forall>i<batch. \<forall>j<n.
                  entry g i j = entry p i j - (if int j = labels ! i then 1 else 0)))
         \<and> OutputLayer_backward self (one_hot n labels) labels = Inr (zeros batch n)"
proof -
  let ?h = "one_hot n labels"
  have oh: "get_one_hot labels (n_classes self) = Inr ?h"
    using get_one_hot_run [of labels n] assms(4,6) by simp
  have wh: "wf_matrix ?h"
    by (rule wf_one_hot)
  define diff :: "real matrix \<Rightarrow> real matrix" where
    "diff q = \<lparr>nrows = nrows q, ncols = ncols q,
               rows = map2 (map2 (-)) (rows q) (rows (one_hot n labels))\<rparr>" for q
  have run: "OutputLayer_backward self q labels = Inr (diff q)"
    and wg: "wf_matrix (diff q)"
    and ent: "\<And>i j. i < batch \<Longrightarrow> j < n \<Longrightarrow>
          entry (diff q) i j = entry q i j - (if int j = labels ! i then 1 else 0)"
    if q: "wf_matrix q" "nrows q = batch" "ncols q = n" for q
  proof -
    have sh: "nrows ?h = nrows q" "ncols ?h = ncols q"
      using q(2,3) assms(5) by (simp_all add: one_hot_def)
    show "OutputLayer_backward self q labels = Inr (diff q)"
      using np_binop_same_shape [OF q(1) wh sh]
      by (simp add: OutputLayer_backward_def oh diff_def)
    show "wf_matrix (diff q)"
      unfolding diff_def by (rule wf_map2_rows [OF q(1) wh sh])
    fix i j assume ij: "i < batch" "j < n"
    then have ij': "i < nrows q" "j < ncols q"
      using q(2,3) by simp_all
    have "entry (diff q) i j = entry q i j - entry ?h i j"
      unfolding diff_def by (rule entry_map2_rows [OF q(1) wh sh ij'])
    then show "entry (diff q) i j = entry q i j - (if int j = labels ! i then 1 else 0)"
      using ij assms(5) by (simp add: entry_one_hot)
  qed
  have shape: "nrows (diff q) = nrows q" "ncols (diff q) = ncols q" for q
    by (simp_all add: diff_def)
  have first: "\<exists>g. OutputLayer_backward self p labels = Inr g
      \<and> wf_matrix g \<and> nrows g = batch \<and> ncols g = n
      \<and> (\<forall>i<batch. \<forall>j<n. entry g i j = entry p i j - (if int j = labels ! i then 1 else 0))"
    using run [OF assms(1-3)] wg [OF assms(1-3)] ent [OF assms(1-3)] assms(2,3)
    by (intro exI [of _ "diff p"]) (simp add: shape)
  have hq: "wf_matrix ?h" "nrows ?h = batch" "ncols ?h = n"
    using assms(5) wh by (simp_all add: one_hot_def)
  have "diff ?h = zeros batch n"
  proof (rule matrix_eqI)
    show "wf_matrix (diff ?h)"
      by (rule wg [OF hq])
    show "wf_matrix (zeros batch n)"
      by (rule wf_zeros)
    show "nrows (diff ?h) = nrows (zeros batch n)" "ncols (diff ?h) = ncols (zeros batch n)"
      using hq(2,3) by (simp_all add: zeros_def shape)
    fix i j assume "i < nrows (diff ?h)" "j < ncols (diff ?h)"
    then have ij: "i < batch" "j < n"
      using hq(2,3) by (simp_all add: shape)
    show "entry (diff ?h) i j = entry (zeros batch n) i j"
      using ent [OF hq ij] ij assms(5) by (simp add: entry_one_hot entry_zeros)
  qed
  then have second: "OutputLayer_backward self ?h labels = Inr (zeros batch n)"
    using run [OF hq] by simp
  show ?thesis
    using first second by (rule conjI)
qed

theorem C2_output_backward_witness:
  "wf_matrix ex_upstream \<and> length [0, 1 :: int] = 2
   \<and> (\<exists>g. OutputLayer_backward \<lparr>n_classes = 2, out_input = None\<rparr> ex_upstream [0, 1] = Inr g
          \<and> nrows g = 2 \<and> ncols g = 2
          \<and> entry g 0 0 = 0 \<and> entry g 0 1 = 0 \<and> entry g 1 0 = 3 \<and> entry g 1 1 = 1)
   \<and> OutputLayer_backward \<lparr>n_classes = 2, out_input = None\<rparr> (one_hot 2 [0, 1]) [0, 1]
        = Inr (zeros 2 2)"
proof -
  let ?self = "\<lparr>n_classes = 2, out_input = None\<rparr>"
  have h: "wf_matrix ex_upstream" "nrows ex_upstream = 2" "ncols ex_upstream = 2"
    "n_classes ?self = int 2" "length [0, 1 :: int] = 2"
    "\<forall>l\<in>set [0, 1 :: int]. 0 \<le> l \<and> l < int 2"
    by (simp_all add: wf_matrix_def ex_upstream_def)
  note inst = C2_output_backward [OF h]
  obtain g where run: "OutputLayer_backward ?self ex_upstream [0, 1] = Inr g"
    and sh: "nrows g = 2" "ncols g = 2"
    and e: "\<forall>i<2. \<forall>j<2. entry g i j
              = entry ex_upstream i j - (if int j = [0, 1] ! i then 1 else 0)"
    using inst by blast
  have v: "entry g 0 0 = 0" "entry g 0 1 = 0" "entry g 1 0 = 3" "entry g 1 1 = 1"
    using e by (simp_all add: all_less_two ex_upstream_def entry_def)
  have first: "\<exists>g. OutputLayer_backward ?self ex_upstream [0, 1] = Inr g
      \<and> nrows g = 2 \<and> ncols g = 2
      \<and> entry g 0 0 = 0 \<and> entry g 0 1 = 0 \<and> entry g 1 0 = 3 \<and> entry g 1 1 = 1"
    using run sh v by (intro exI [of _ g] conjI)
  have second: "OutputLayer_backward ?self (one_hot 2 [0, 1]) [0, 1] = Inr (zeros 2 2)"
    using inst by blast
  show ?thesis
    using h(1,5) first second by (intro conjI)
qed

section \<open>Output backward and the cache\<close>

text \<open>
  C10. The result of \<open>OutputLayer.backward\<close> is determined by the predicted posteriors,
  the labels and the layer's \<open>n_classes\<close>: two output layers with the same \<open>n_classes\<close>
  give the same result whatever their caches hold, also when one of them has never run
  forward.
\<close>

theorem C10_output_backward_ignores_cache:
  "n_classes self = n_classes other \<Longrightarrow>
   OutputLayer_backward self p y = OutputLayer_backward other p y"
  by (simp add: OutputLayer_backward_def)

theorem C10_output_backward_ignores_cache_witness:
  "n_classes \<lparr>n_classes = 2, out_input = None\<rparr>
     = n_classes \<lparr>n_classes = 2, out_input = Some ex_batch\<rparr>
   \<and> OutputLayer_backward \<lparr>n_classes = 2, out_input = None\<rparr> ex_upstream [0, 1]
       = OutputLayer_backward \<lparr>n_classes = 2, out_input = Some ex_batch\<rparr> ex_upstream [0, 1]
   \<and> OutputLayer_backward \<lparr>n_classes = 2, out_input = Some ex_batch\<rparr> ex_upstream [0, 1]
       = Inr \<lparr>nrows = 2, ncols = 2, rows = [[0, 0], [3, 1]]\<rparr>"
proof -
  have h: "n_classes \<lparr>n_classes = 2, out_input = None\<rparr>
      = n_classes \<lparr>n_classes = 2, out_input = Some ex_batch\<rparr>"
    by simp
  have v: "OutputLayer_backward \<lparr>n_classes = 2, out_input = Some ex_batch\<rparr> ex_upstream [0, 1]
      = Inr \<lparr>nrows = 2, ncols = 2, rows = [[0, 0], [3, 1]]\<rparr>"
    by (simp add: OutputLayer_backward_def get_one_hot_def np_eye_def take_rows_def
        np_index_def np_binop_def bdim_def broadcast_to_def stretch_def ex_upstream_def upt_two)
  show ?thesis
    using h C10_output_backward_ignores_cache [OF h, of ex_upstream "[0, 1]"] v
    by (intro conjI)
qed

section \<open>Facts about the float64 softmax\<close>

text \<open>Where nothing overflows, the float64 model gives the softmax: here for a row of zeros.\<close>

lemma f64_max_large: "2 \<le> f64_max" "1 / 2 \<le> f64_max"
proof -
  have "(1::real) \<le> 10 ^ 292"
    by (rule one_le_power) simp
  then have "17976931348623157 * (1::real) \<le> 17976931348623157 * 10 ^ 292"
    by (intro mult_left_mono) simp_all
  then show "2 \<le> f64_max" "1 / 2 \<le> f64_max"
    by (simp_all add: f64_max_def)
qed

lemma OutputLayer_forward_f64_zeros:
  "OutputLayer_forward_f64 \<lparr>n_classes = 2, out_input = None\<rparr>
       \<lparr>nrows = 1, ncols = 2, rows = [[0, 0]]\<rparr>
     = Inr (\<lparr>n_classes = 2, out_input = Some \<lparr>nrows = 1, ncols = 2, rows = [[0, 0]]\<rparr>\<rparr>,
            \<lparr>nrows = 1, ncols = 2, rows = [[Fin (1 / 2), Fin (1 / 2)]]\<rparr>)"
  using f64_max_large
  by (simp add: OutputLayer_forward_f64_def np_exp_f64_def np_sum_axis1_keepdims_f64_def
      map_matrix_def np_binop_def bdim_def broadcast_to_def stretch_def f64_exp_def
      numeral_2_eq_2 not_less)

section \<open>Output forward\<close>

text \<open>
  C8. The claim is that every row of the result of \<open>OutputLayer.forward\<close> sums to 1 and
  that every entry lies in [0, 1], for every input. The code exponentiates the input as
  it is, with no shift by the maximum of the row, so in float64 the input row
  [1000.0, 0.0] gives the exponentials [inf, 1.0], their sum inf, and the result
  [nan, 0.0]: an entry that is not a number and a row that does not sum to 1, where
  the softmax of that row is [1, 0].
\<close>

theorem C8_softmax_overflow:
  "OutputLayer_forward_f64 \<lparr>n_classes = 2, out_input = None\<rparr>
       \<lparr>nrows = 1, ncols = 2, rows = [[1000, 0]]\<rparr>
     = Inr (\<lparr>n_classes = 2, out_input = Some \<lparr>nrows = 1, ncols = 2, rows = [[1000, 0]]\<rparr>\<rparr>,
            \<lparr>nrows = 1, ncols = 2, rows = [[NaN, Fin 0]]\<rparr>)"
  by (simp add: OutputLayer_forward_f64_def np_exp_f64_def np_sum_axis1_keepdims_f64_def
      map_matrix_def np_binop_def bdim_def broadcast_to_def stretch_def f64_exp_def
      numeral_2_eq_2)

section \<open>Training in mini-batches\<close>

text \<open>
  C7 as stated does not hold for a batch size of 0: \<open>train\<close> raises ZeroDivisionError
  at \<^verbatim>\<open>N // batch_size\<close>, before the first epoch, and updates nothing.
\<close>

theorem C7_zero_batch_size_counterexample:
  "train ex_net ex_rng ex_batch [0, 1] 1 0 (1 / 2) = Inl ZeroDivisionError"
  by (simp add: train_def)

text \<open>
  C7, amended. For a dataset of N instances, a batch size of at least 1 and every
  number of epochs, with a random source whose answers to \<^verbatim>\<open>permutation(N)\<close> are
  rearrangements of 0..N-1: \<open>train\<close> is the run that calls \<open>update\<close> once for each
  mini-batch, in order, epoch after epoch, where epoch i takes the i-th permutation still
  to come from the random source (a fresh one for every epoch) and the source ends
  advanced by the number of epochs. The mini-batches of an epoch are N div batch_size
  index lists of exactly batch_size indices each, distinct and below N; put end to end
  they are the first (N div batch_size) * batch_size entries of the permutation, no
  index is in two of them, and the N mod batch_size entries left over are in none. For
  N = 2000 and batch_size = 200 there are 10 mini-batches of 200 distinct indices each.
  That the permutation is uniformly distributed is a property of numpy outside this model.
\<close>

theorem C7_train_batches:
  assumes "0 < batch_size" "nrows x = N"
    and "\<forall>i<nat n_epochs. distinct (perm_stream g (perm_pos g + i) N)
                            \<and> set (perm_stream g (perm_pos g + i) N) = {..<N}"
  shows "train self g x y n_epochs batch_size lr =
           (case update_on_batches self x y lr
                   (concat (map (\<lambda>i. epoch_batches N batch_size
                                          (perm_stream g (perm_pos g + i) N))
                                [0..<nat n_epochs])) of
              Inl e \<Rightarrow> Inl e
            | Inr s \<Rightarrow> Inr (s, g\<lparr>perm_pos := perm_pos g + nat n_epochs\<rparr>))
         \<and> (\<forall>i<nat n_epochs.
               length (epoch_batches N batch_size (perm_stream g (perm_pos g + i) N))
                 = N div nat batch_size
               \<and> (\<forall>b\<in>set (epoch_batches N batch_size (perm_stream g (perm_pos g + i) N)).
                     length b = nat batch_size \<and> distinct b \<and> set b \<subseteq> {..<N})
               \<and> concat (epoch_batches N batch_size (perm_stream g (perm_pos g + i) N))
                   = take (N div nat batch_size * nat batch_size)
                       (perm_stream g (perm_pos g + i) N)
               \<and> distinct (concat (epoch_batches N batch_size
                                      (perm_stream g (perm_pos g + i) N)))
               \<and> length (drop (N div nat batch_size * nat batch_size)
                           (perm_stream g (perm_pos g + i) N)) = N mod nat batch_size)
         \<and> (N = 2000 \<and> batch_size = 200 \<longrightarrow>
              (\<forall>i<nat n_epochs.
                 length (epoch_batches N batch_size (perm_stream g (perm_pos g + i) N)) = 10
                 \<and> (\<forall>b\<in>set (epoch_batches N batch_size (perm_stream g (perm_pos g + i) N)).
                       length b = 200 \<and> distinct b)))"
proof -
  let ?m = "nat batch_size"
  let ?p = "\<lambda>i. perm_stream g (perm_pos g + i) N"
  let ?B = "\<lambda>i. epoch_batches N batch_size (?p i)"
  have run: "train self g x y n_epochs batch_size lr =
           (case update_on_batches self x y lr (concat (map ?B [0..<nat n_epochs])) of
              Inl e \<Rightarrow> Inl e
            | Inr s \<Rightarrow> Inr (s, g\<lparr>perm_pos := perm_pos g + nat n_epochs\<rparr>))"
    using train_eq [of batch_size self g x y n_epochs lr] assms(1,2) by simp
  have epoch: "length (?B i) = N div ?m
      \<and> (\<forall>b\<in>set (?B i). length b = ?m \<and> distinct b \<and> set b \<subseteq> {..<N})
      \<and> concat (?B i) = take (N div ?m * ?m) (?p i)
      \<and> distinct (concat (?B i))
      \<and> length (drop (N div ?m * ?m) (?p i)) = N mod ?m"
    if i: "i < nat n_epochs" for i
  proof -
    have d: "distinct (?p i)" and st: "set (?p i) = {..<N}"
      using assms(3) i by simp_all
    have len: "length (?p i) = N"
      by (rule permutation_length [OF d st])
    note facts = epoch_batches_facts [OF assms(1) len]
    have dc: "distinct (concat (?B i))"
      unfolding facts(3) by (rule distinct_take [OF d])
    have each: "length b = ?m \<and> distinct b \<and> set b \<subseteq> {..<N}" if b: "b \<in> set (?B i)" for b
    proof -
      have "set b \<subseteq> set (concat (?B i))"
        using b by auto
      also have "\<dots> \<subseteq> set (?p i)"
        unfolding facts(3) by (rule set_take_subset)
      finally have "set b \<subseteq> {..<N}"
        using st by simp
      moreover have "distinct b"
        using dc b by (simp add: distinct_concat_iff)
      ultimately show ?thesis
        using facts(2) [OF b] by simp
    qed
    have rest: "length (drop (N div ?m * ?m) (?p i)) = N mod ?m"
      using len by (simp add: minus_div_mult_eq_mod)
    have eachB: "\<forall>b\<in>set (?B i). length b = ?m \<and> distinct b \<and> set b \<subseteq> {..<N}"
      by (intro ballI) (rule each)
    show ?thesis
      using facts(1) eachB facts(3) dc rest by (intro conjI)
  qed
  have special: "length (?B i) = 10 \<and> (\<forall>b\<in>set (?B i). length b = 200 \<and> distinct b)"
    if "N = 2000" "batch_size = 200" "i < nat n_epochs" for i
    using epoch [OF that(3)] that(1,2) by simp
  have E: "\<forall>i<nat n_epochs. length (?B i) = N div ?m
      \<and> (\<forall>b\<in>set (?B i). length b = ?m \<and> distinct b \<and> set b \<subseteq> {..<N})
      \<and> concat (?B i) = take (N div ?m * ?m) (?p i)
      \<and> distinct (concat (?B i))
      \<and> length (drop (N div ?m * ?m) (?p i)) = N mod ?m"
    by (intro allI impI) (rule epoch)
  have S: "N = 2000 \<and> batch_size = 200 \<longrightarrow>
      (\<forall>i<nat n_epochs. length (?B i) = 10 \<and> (\<forall>b\<in>set (?B i). length b = 200 \<and> distinct b))"
  proof (intro impI allI)
    fix i assume "N = 2000 \<and> batch_size = 200" and "i < nat n_epochs"
    then show "length (?B i) = 10 \<and> (\<forall>b\<in>set (?B i). length b = 200 \<and> distinct b)"
      using special [of i] by simp
  qed
  show ?thesis
    using run E S by (intro conjI)
qed

theorem C7_train_batches_witness:
  "0 < (200 :: int) \<and> nrows ex_data = 2000
   \<and> distinct (rev [0..<2000]) \<and> set (rev [0..<2000]) = {..<2000}
   \<and> length (epoch_batches 2000 200 (rev [0..<2000])) = 10
   \<and> length (epoch_batches 2000 200 (rev [0..<2000]) ! 0) = 200
   \<and> distinct (epoch_batches 2000 200 (rev [0..<2000]) ! 0)
   \<and> concat (epoch_batches 2000 200 (rev [0..<2000])) = take 2000 (rev [0..<2000])
   \<and> distinct (concat (epoch_batches 2000 200 (rev [0..<2000])))
   \<and> epoch_batches 5 2 (rev [0..<5]) = [[4, 3], [2, 1]]"
proof -
  let ?p = "rev [0..<2000]"
  let ?B = "epoch_batches 2000 200 ?p"
  have p: "perm_stream ex_rng (perm_pos ex_rng + i) 2000 = ?p" for i
    by (simp add: ex_rng_def)
  have h: "0 < (200 :: int)" "nrows ex_data = 2000"
    "\<forall>i<nat 5. distinct (perm_stream ex_rng (perm_pos ex_rng + i) 2000)
               \<and> set (perm_stream ex_rng (perm_pos ex_rng + i) 2000) = {..<2000}"
    unfolding p by (simp_all add: ex_data_def atLeast0LessThan)
  note inst = C7_train_batches [OF h, of ex_net "replicate 2000 0" "1 / 20", unfolded p]
  have e: "length ?B = 2000 div nat 200
      \<and> (\<forall>b\<in>set ?B. length b = nat 200 \<and> distinct b \<and> set b \<subseteq> {..<2000})
      \<and> concat ?B = take (2000 div nat 200 * nat 200) ?p
      \<and> distinct (concat ?B)
      \<and> length (drop (2000 div nat 200 * nat 200) ?p) = 2000 mod nat 200"
    using inst [THEN conjunct2, THEN conjunct1] by (elim allE [of _ 0]) simp
  have len: "length ?B = 10"
    using e by simp
  then have mem: "?B ! 0 \<in> set ?B"
    by (intro nth_mem) simp
  have b0: "length (?B ! 0) = 200" "distinct (?B ! 0)"
    using e mem by auto
  have c: "concat ?B = take 2000 ?p" "distinct (concat ?B)"
    using e by simp_all
  have small: "epoch_batches 5 2 (rev [0..<5]) = [[4, 3], [2, 1]]"
    by code_simp
  have d: "distinct ?p" "set ?p = {..<2000}"
    by (simp_all add: atLeast0LessThan)
  show ?thesis
    using h(1,2) d len b0 c small by (intro conjI)
qed

section \<open>The layers of a constructed network\<close>

text \<open>
  C6 as stated does not hold for the empty list of layer sizes: the constructor raises
  IndexError at \<^verbatim>\<open>layer_sizes[-1]\<close> and constructs no network.
\<close>

theorem C6_empty_layer_sizes_counterexample:
  "MLP_init ex_rng 2 [] = Inl IndexError"
  by (simp add: MLP_init_def)

text \<open>
  C6, amended. For n_features at least 0 and a non-empty list layer_sizes of widths at
  least 0, the constructor succeeds and the network holds exactly 2 * len(layer_sizes)
  layers: at position 2k a linear layer from the k-th entry of n_features followed by
  layer_sizes (the previous width, starting at n_features) to layer_sizes[k]; at
  position 2k + 1 a ReLU layer for every width but the last; and at the last position
  the output layer for the last width. A network that returns from forward, backward,
  update or train holds the same sequence of layers as before: the same number of
  layers, each of the class and with the constructor arguments it had.
\<close>

theorem C6_network_layers:
  assumes "0 \<le> n_features" "layer_sizes \<noteq> []" "\<forall>w\<in>set layer_sizes. 0 \<le> w"
  shows "(\<exists>net g'. MLP_init g n_features layer_sizes = Inr (net, g')
            \<and> n_layers net = length layer_sizes
            \<and> length (layers net) = 2 * length layer_sizes
            \<and> (\<forall>k<length layer_sizes.
                  kind (layers net ! (2 * k))
                    = LinearKind ((n_features # layer_sizes) ! k) (layer_sizes ! k))
            \<and> (\<forall>k<length layer_sizes - 1. kind (layers net ! (2 * k + 1)) = ReLUKind)
            \<and> kind (layers net ! (2 * length layer_sizes - 1))
                = OutputKind (last layer_sizes))
         \<and> (MLP_forward mlp X = Inr (mlpf, out) \<longrightarrow>
               map kind (layers mlpf) = map kind (layers mlp))
         \<and> (MLP_backward mlp p y = Inr mlpb \<longrightarrow>
               map kind (layers mlpb) = map kind (layers mlp))
         \<and> (MLP_update mlp X' Y lr = Inr mlpu \<longrightarrow>
               map kind (layers mlpu) = map kind (layers mlp))
         \<and> (train mlp r x t n_epochs batch_size rate = Inr (mlpt, r') \<longrightarrow>
               map kind (layers mlpt) = map kind (layers mlp))"
proof -
  let ?n = "length layer_sizes"
  obtain net g' where run: "MLP_init g n_features layer_sizes = Inr (net, g')"
    and nl: "n_layers net = ?n"
    and ks: "map kind (layers net)
        = interior_kinds n_features (butlast layer_sizes)
          @ [LinearKind (last (n_features # butlast layer_sizes)) (last layer_sizes),
             OutputKind (last layer_sizes)]"
    using MLP_init_run [OF assms, of g] by (elim exE conjE)
  note pos = network_kinds_positions [OF assms(2), where n = n_features, folded ks]
  have len: "length (layers net) = 2 * ?n"
    using pos(1) by simp
  have at: "kind (layers net ! i) = map kind (layers net) ! i" if "i < 2 * ?n" for i
    using that len by simp
  have lin: "kind (layers net ! (2 * k))
      = LinearKind ((n_features # layer_sizes) ! k) (layer_sizes ! k)" if "k < ?n" for k
    using pos(2) [OF that] at [of "2 * k"] that by simp
  have relu: "kind (layers net ! (2 * k + 1)) = ReLUKind" if "k < ?n - 1" for k
    using pos(3) [OF that] at [of "2 * k + 1"] that by simp
  have outk: "kind (layers net ! (2 * ?n - 1)) = OutputKind (last layer_sizes)"
    using pos(4) at [of "2 * ?n - 1"] assms(2) by simp
  have built: "\<exists>net g'. MLP_init g n_features layer_sizes = Inr (net, g')
      \<and> n_layers net = ?n \<and> length (layers net) = 2 * ?n
      \<and> (\<forall>k<?n. kind (layers net ! (2 * k))
                    = LinearKind ((n_features # layer_sizes) ! k) (layer_sizes ! k))
      \<and> (\<forall>k<?n - 1. kind (layers net ! (2 * k + 1)) = ReLUKind)
      \<and> kind (layers net ! (2 * ?n - 1)) = OutputKind (last layer_sizes)"
  proof (intro exI [of _ net] exI [of _ g'] conjI allI impI)
    show "MLP_init g n_features layer_sizes = Inr (net, g')" by (rule run)
    show "n_layers net = ?n" by (rule nl)
    show "length (layers net) = 2 * ?n" by (rule len)
    show "kind (layers net ! (2 * k))
        = LinearKind ((n_features # layer_sizes) ! k) (layer_sizes ! k)" if "k < ?n" for k
      by (rule lin [OF that])
    show "kind (layers net ! (2 * k + 1)) = ReLUKind" if "k < ?n - 1" for k
      by (rule relu [OF that])
    show "kind (layers net ! (2 * ?n - 1)) = OutputKind (last layer_sizes)" by (rule outk)
  qed
  have fw: "MLP_forward mlp X = Inr (mlpf, out) \<longrightarrow>
      map kind (layers mlpf) = map kind (layers mlp)"
    by (intro impI) (rule MLP_forward_same(2))
  have bw: "MLP_backward mlp p y = Inr mlpb \<longrightarrow>
      map kind (layers mlpb) = map kind (layers mlp)"
    by (intro impI) (rule MLP_backward_same(2))
  have up: "MLP_update mlp X' Y lr = Inr mlpu \<longrightarrow>
      map kind (layers mlpu) = map kind (layers mlp)"
    by (intro impI) (rule MLP_update_same(1))
  have tr: "train mlp r x t n_epochs batch_size rate = Inr (mlpt, r') \<longrightarrow>
      map kind (layers mlpt) = map kind (layers mlp)"
    using train_same [of mlp r x t n_epochs batch_size rate mlpt r'] by (intro impI) simp
  show ?thesis
    using built fw bw up tr by (intro conjI)
qed

theorem C6_network_layers_witness:
  "0 \<le> (2 :: int) \<and> [3, 2 :: int] \<noteq> []
   \<and> (\<exists>net g'. MLP_init ex_rng 2 [3, 2] = Inr (net, g')
          \<and> n_layers net = 2 \<and> length (layers net) = 4
          \<and> kind (layers net ! 0) = LinearKind 2 3 \<and> kind (layers net ! 1) = ReLUKind
          \<and> kind (layers net ! 2) = LinearKind 3 2 \<and> kind (layers net ! 3) = OutputKind 2)
   \<and> (\<exists>n out. MLP_forward ex_net ex_batch = Inr (n, out)
          \<and> map kind (layers n) = [LinearKind 2 2, OutputKind 2])
   \<and> (\<exists>n. MLP_backward ex_net_primed ex_upstream [0, 1] = Inr n
          \<and> map kind (layers n) = [LinearKind 2 2, OutputKind 2])
   \<and> (\<exists>n. MLP_update ex_net ex_batch [0, 1] (1 / 2) = Inr n
          \<and> map kind (layers n) = [LinearKind 2 2, OutputKind 2])
   \<and> (\<exists>n r. train ex_net ex_rng ex_batch [0, 1] 1 2 (1 / 2) = Inr (n, r)
          \<and> map kind (layers n) = [LinearKind 2 2, OutputKind 2])"
proof -
  have h: "0 \<le> (2 :: int)" "[3, 2 :: int] \<noteq> []" "\<forall>w\<in>set [3, 2 :: int]. 0 \<le> w"
    by simp_all
  obtain nf out where f: "MLP_forward ex_net ex_batch = Inr (nf, out)"
    by (simp add: MLP_forward_def ex_net_def ex_batch_def ex_linear_def
        LinearLayer_forward_def OutputLayer_forward_def matmul_def np_binop_def bdim_def
        row_matrix_def np_sum_axis1_keepdims_def np_exp_def map_matrix_def)
  obtain nb where b: "MLP_backward ex_net_primed ex_upstream [0, 1] = Inr nb"
    by (simp add: MLP_backward_def ex_net_primed_def OutputLayer_backward_def get_one_hot_def
        np_eye_def take_rows_def np_index_def np_binop_def bdim_def broadcast_to_def
        stretch_def ex_upstream_def upt_two LinearLayer_backward_def ex_linear_def
        ex_batch_def matmul_def np_T_def Let_def)
  obtain nu where u: "MLP_update ex_net ex_batch [0, 1] (1 / 2) = Inr nu"
    by (simp add: MLP_update_def MLP_forward_def MLP_backward_def ex_net_def ex_batch_def
        ex_linear_def LinearLayer_forward_def OutputLayer_forward_def matmul_def
        matmul_rows_def np_binop_def np_binop_vec_def bdim_def row_matrix_def
        np_sum_axis1_keepdims_def np_exp_def map_matrix_def OutputLayer_backward_def
        get_one_hot_def np_eye_def take_rows_def np_index_def broadcast_to_def stretch_def
        upt_two LinearLayer_backward_def np_T_def Let_def LinearLayer_update_def
        np_sum_axis0_def column_def dot_def OutputLayer_update_def)
  obtain nt rt where t: "train ex_net ex_rng ex_batch [0, 1] 1 2 (1 / 2) = Inr (nt, rt)"
    by (simp add: train_def ex_rng_def batch_indices_def py_slice_def take_items_def
        np_random_permutation_def
        MLP_update_def MLP_forward_def MLP_backward_def ex_net_def ex_batch_def
        ex_linear_def LinearLayer_forward_def OutputLayer_forward_def matmul_def
        matmul_rows_def np_binop_def np_binop_vec_def bdim_def row_matrix_def
        np_sum_axis1_keepdims_def np_exp_def map_matrix_def OutputLayer_backward_def
        get_one_hot_def np_eye_def take_rows_def np_index_def broadcast_to_def stretch_def
        upt_two LinearLayer_backward_def np_T_def Let_def LinearLayer_update_def
        np_sum_axis0_def column_def dot_def OutputLayer_update_def)
  note inst = C6_network_layers [OF h, where g = ex_rng and mlp = ex_net and X = ex_batch
      and mlpf = nf and out = out and X' = ex_batch and Y = "[0, 1]" and lr = "1 / 2"
      and mlpu = nu and r = ex_rng and x = ex_batch and t = "[0, 1]" and n_epochs = 1
      and batch_size = 2 and rate = "1 / 2" and mlpt = nt and r' = rt]
  note inst' = C6_network_layers [OF h, where mlp = ex_net_primed and p = ex_upstream
      and y = "[0, 1]" and mlpb = nb]
  from inst [THEN conjunct1]
  obtain net g' where run: "MLP_init ex_rng 2 [3, 2] = Inr (net, g')"
    and nl: "n_layers net = length [3, 2 :: int]"
    and len: "length (layers net) = 2 * length [3, 2 :: int]"
    and lin: "\<forall>k<length [3, 2 :: int].
        kind (layers net ! (2 * k)) = LinearKind ((2 # [3, 2]) ! k) ([3, 2] ! k)"
    and relu: "\<forall>k<length [3, 2 :: int] - 1. kind (layers net ! (2 * k + 1)) = ReLUKind"
    and outk: "kind (layers net ! (2 * length [3, 2 :: int] - 1)) = OutputKind (last [3, 2])"
    by (elim exE conjE)
  have k0: "kind (layers net ! 0) = LinearKind 2 3" and k2: "kind (layers net ! 2) = LinearKind 3 2"
    using lin [rule_format, of 0] lin [rule_format, of 1] by simp_all
  have k1: "kind (layers net ! 1) = ReLUKind"
    using relu [rule_format, of 0] by simp
  have k3: "kind (layers net ! 3) = OutputKind 2"
    using outk by simp
  have A: "\<exists>net g'. MLP_init ex_rng 2 [3, 2] = Inr (net, g')
      \<and> n_layers net = 2 \<and> length (layers net) = 4
      \<and> kind (layers net ! 0) = LinearKind 2 3 \<and> kind (layers net ! 1) = ReLUKind
      \<and> kind (layers net ! 2) = LinearKind 3 2 \<and> kind (layers net ! 3) = OutputKind 2"
    using run nl len k0 k1 k2 k3 by (intro exI [of _ net] exI [of _ g'] conjI) simp_all
  have kn: "map kind (layers ex_net) = [LinearKind 2 2, OutputKind 2]"
    "map kind (layers ex_net_primed) = [LinearKind 2 2, OutputKind 2]"
    by (simp_all add: ex_net_def ex_net_primed_def ex_linear_def)
  have B: "\<exists>n out. MLP_forward ex_net ex_batch = Inr (n, out)
      \<and> map kind (layers n) = [LinearKind 2 2, OutputKind 2]"
    using f inst kn(1) by (intro exI [of _ nf] exI [of _ out] conjI) simp_all
  have C: "\<exists>n. MLP_backward ex_net_primed ex_upstream [0, 1] = Inr n
      \<and> map kind (layers n) = [LinearKind 2 2, OutputKind 2]"
    using b inst' kn(2) by (intro exI [of _ nb] conjI) simp_all
  have D: "\<exists>n. MLP_update ex_net ex_batch [0, 1] (1 / 2) = Inr n
      \<and> map kind (layers n) = [LinearKind 2 2, OutputKind 2]"
    using u inst kn(1) by (intro exI [of _ nu] conjI) simp_all
  have E: "\<exists>n r. train ex_net ex_rng ex_batch [0, 1] 1 2 (1 / 2) = Inr (n, r)
      \<and> map kind (layers n) = [LinearKind 2 2, OutputKind 2]"
    using t inst kn(1) by (intro exI [of _ nt] exI [of _ rt] conjI) simp_all
  show ?thesis
    using h(1,2) A B C D E by (intro conjI)
qed

end
